theory Spec2Isabelle
  imports
    Complex_Main
    "HOL-Library.Char_ord"
    "HOL-Library.List_Lexorder"
    "HOL-Library.Product_Lexorder"
    "HOL-Library.Multiset"
begin

section \<open>Data model\<close>

text \<open>
  The service (\<^verbatim>\<open>src/app/main.py\<close>) is a read-only query layer over two tables.
  A \<^verbatim>\<open>datetime\<close> is an instant on the UTC time line, counted in microseconds (the
  resolution of both Python's \<^verbatim>\<open>datetime\<close> and the datastore's timestamps).
  Nullable columns are \<open>option\<close>s; the columns that the response models declare as
  non-optional (\<^verbatim>\<open>station_id: str\<close>, \<^verbatim>\<open>pollutant: str\<close>, \<^verbatim>\<open>timestamp: datetime\<close>) are
  not nullable in the table rows either.
\<close>

type_synonym datetime = int

definition timedelta_hours :: "int \<Rightarrow> int" where
  "timedelta_hours h = h * 3600000000"

text \<open>Table \<^verbatim>\<open>measurements\<close>, columns in the order of the \<^verbatim>\<open>SELECT\<close> lists.\<close>

record measurement_row =
  m_station_id :: string
  m_pollutant :: string
  m_value :: "real option"
  m_unit :: "string option"
  m_city :: "string option"
  m_location_name :: "string option"
  m_lat :: "real option"
  m_lon :: "real option"
  m_country :: "string option"
  m_ts :: datetime
  m_source :: "string option"

text \<open>Table \<^verbatim>\<open>stations\<close>.\<close>

record station_row =
  s_station_id :: string
  s_source :: "string option"
  s_country :: "string option"
  s_city :: "string option"
  s_location_name :: "string option"
  s_lat :: "real option"
  s_lon :: "real option"

text \<open>The pydantic response models \<^verbatim>\<open>Measurement\<close> and \<^verbatim>\<open>TimePoint\<close>.\<close>

record Measurement =
  meas_station_id :: string
  meas_pollutant :: string
  meas_value :: "real option"
  meas_unit :: "string option"
  meas_city :: "string option"
  meas_location_name :: "string option"
  meas_lat :: "real option"
  meas_lon :: "real option"
  meas_country :: "string option"
  meas_timestamp :: datetime
  meas_source :: "string option"

record TimePoint =
  tp_station_id :: string
  tp_pollutant :: string
  tp_value :: "real option"
  tp_unit :: "string option"
  tp_country :: "string option"
  tp_city :: "string option"
  tp_location_name :: "string option"
  tp_timestamp :: datetime
  tp_source :: "string option"

section \<open>Parameterised SQL\<close>

text \<open>
  Values that travel between Python and the datastore, and the \<^verbatim>\<open>params\<close> dictionary of
  a statement (insertion ordered, as a Python \<^verbatim>\<open>dict\<close>).
\<close>

datatype val = Null | Text string | Integer int | Float real | Timestamp datetime

type_synonym params = "(string \<times> val) list"

fun dict_set :: "string \<Rightarrow> val \<Rightarrow> params \<Rightarrow> params" where
  "dict_set k v [] = [(k, v)]"
| "dict_set k v ((k', v') # ps) =
     (if k' = k then (k, v) # ps else (k', v') # dict_set k v ps)"

text \<open>
  A filter is one conjunct of a \<^verbatim>\<open>WHERE\<close> clause:
  \<^verbatim>\<open>col = %(name)s\<close>, \<^verbatim>\<open>col >= %(name)s\<close> or \<^verbatim>\<open>col IS NOT NULL\<close>.
  A list of filters stands for \<^verbatim>\<open>"WHERE " + " AND ".join(filters)\<close>, the empty list
  for the empty clause.
\<close>

datatype 'c cond = Eq_param 'c string | Ge_param 'c string | Is_not_null 'c

datatype m_column = M_station_id | M_pollutant | M_country | M_ts

datatype s_column = S_country | S_lat | S_lon

fun text_opt :: "string option \<Rightarrow> val" where
  "text_opt None = Null"
| "text_opt (Some s) = Text s"

fun float_opt :: "real option \<Rightarrow> val" where
  "float_opt None = Null"
| "float_opt (Some x) = Float x"

fun measurement_col :: "m_column \<Rightarrow> measurement_row \<Rightarrow> val" where
  "measurement_col M_station_id r = Text (m_station_id r)"
| "measurement_col M_pollutant r = Text (m_pollutant r)"
| "measurement_col M_country r = text_opt (m_country r)"
| "measurement_col M_ts r = Timestamp (m_ts r)"

fun station_col :: "s_column \<Rightarrow> station_row \<Rightarrow> val" where
  "station_col S_country r = text_opt (s_country r)"
| "station_col S_lat r = float_opt (s_lat r)"
| "station_col S_lon r = float_opt (s_lon r)"

text \<open>
  Three-valued logic collapses to two values in a \<^verbatim>\<open>WHERE\<close> clause: a comparison with
  \<^verbatim>\<open>NULL\<close> does not select the row.
\<close>

fun holds :: "('c \<Rightarrow> 'r \<Rightarrow> val) \<Rightarrow> params \<Rightarrow> 'r \<Rightarrow> 'c cond \<Rightarrow> bool" where
  "holds col ps r (Eq_param c n) =
     (case map_of ps n of None \<Rightarrow> False | Some v \<Rightarrow> v \<noteq> Null \<and> col c r = v)"
| "holds col ps r (Ge_param c n) =
     (case map_of ps n of
        Some (Timestamp since) \<Rightarrow>
          (case col c r of Timestamp t \<Rightarrow> since \<le> t | _ \<Rightarrow> False)
      | _ \<Rightarrow> False)"
| "holds col ps r (Is_not_null c) = (col c r \<noteq> Null)"

text \<open>A statement whose placeholder has no entry in \<^verbatim>\<open>params\<close> is refused by the driver.\<close>

fun bound :: "params \<Rightarrow> 'c cond \<Rightarrow> bool" where
  "bound ps (Eq_param c n) = (map_of ps n \<noteq> None)"
| "bound ps (Ge_param c n) = (map_of ps n \<noteq> None)"
| "bound ps (Is_not_null c) = True"

definition where_rows ::
  "('c \<Rightarrow> 'r \<Rightarrow> val) \<Rightarrow> params \<Rightarrow> 'c cond list \<Rightarrow> 'r list \<Rightarrow> 'r list" where
  "where_rows col ps filters rows = filter (\<lambda>r. list_all (holds col ps r) filters) rows"

text \<open>
  \<^verbatim>\<open>ORDER BY\<close>: the rows in ascending order of the key. SQL leaves the order of rows
  with equal keys open; here they keep the order of the table scan, so the scan order of
  a table (the order of its list) is the one free choice of the datastore.
\<close>

definition order_by :: "('r \<Rightarrow> 'k::linorder) \<Rightarrow> 'r list \<Rightarrow> 'r list" where
  "order_by key rows = sort_key key rows"

text \<open>
  \<^verbatim>\<open>SELECT DISTINCT ON (key)\<close> over ordered rows: the first row of every run of rows
  with the same key.
\<close>

fun distinct_on :: "('r \<Rightarrow> 'k) \<Rightarrow> 'r list \<Rightarrow> 'r list" where
  "distinct_on key [] = []"
| "distinct_on key [r] = [r]"
| "distinct_on key (r # r' # rs) =
     (if key r = key r' then distinct_on key (r # rs) else r # distinct_on key (r' # rs))"

datatype error =
    HTTPException int string
  | RequestValidationError "string list"
  | DatabaseError

text \<open>
  \<^verbatim>\<open>LIMIT %(limit)s OFFSET %(offset)s\<close>. Both counts are of type \<^verbatim>\<open>bigint\<close> in the
  datastore, which refuses a negative count and a count beyond the range of \<^verbatim>\<open>bigint\<close>.
\<close>

definition bigint_max :: int where
  "bigint_max = 9223372036854775807"

definition limit_offset :: "params \<Rightarrow> 'r list \<Rightarrow> error + 'r list" where
  "limit_offset ps rows =
     (case map_of ps ''limit'' of
        Some (Integer l) \<Rightarrow>
          (case map_of ps ''offset'' of
             Some (Integer off) \<Rightarrow>
               if l < 0 \<or> off < 0 \<or> bigint_max < l \<or> bigint_max < off
               then Inl DatabaseError
               else Inr (take (nat l) (drop (nat off) rows))
           | _ \<Rightarrow> Inl DatabaseError)
      | _ \<Rightarrow> Inl DatabaseError)"

text \<open>
  The two statements that \<^verbatim>\<open>list_measurements\<close> writes, each with its
  \<^verbatim>\<open>{where_clause}\<close>:

  \<^verbatim>\<open>WITH filtered AS (SELECT ... FROM measurements {where_clause})
  SELECT DISTINCT ON (station_id, pollutant) ... FROM filtered
  ORDER BY station_id, pollutant, ts DESC LIMIT %(limit)s OFFSET %(offset)s\<close>

  \<^verbatim>\<open>SELECT ... FROM measurements {where_clause}
  ORDER BY ts DESC LIMIT %(limit)s OFFSET %(offset)s\<close>
\<close>

datatype measurements_sql =
    Select_latest "m_column cond list"
  | Select_plain "m_column cond list"

fun select_measurements ::
  "measurements_sql \<Rightarrow> params \<Rightarrow> measurement_row list \<Rightarrow> error + measurement_row list" where
  "select_measurements (Select_latest wc) ps tbl =
     (if list_all (bound ps) wc
      then limit_offset ps
             (distinct_on (\<lambda>m. (m_station_id m, m_pollutant m))
               (order_by (\<lambda>m. ((m_station_id m, m_pollutant m), - m_ts m))
                 (where_rows measurement_col ps wc tbl)))
      else Inl DatabaseError)"
| "select_measurements (Select_plain wc) ps tbl =
     (if list_all (bound ps) wc
      then limit_offset ps (order_by (\<lambda>m. - m_ts m) (where_rows measurement_col ps wc tbl))
      else Inl DatabaseError)"

text \<open>Every statement the service can send, as the log of a connection records it.\<close>

datatype statement =
    Measurements_stmt measurements_sql
  | Timeseries_stmt
  | Stations_stmt "m_column cond list" "s_column cond list"
  | Stations_wkt_stmt "m_column cond list" "s_column cond list"

section \<open>The world of a request\<close>

text \<open>
  What a handler can read or change: the two tables, the clock
  (\<^verbatim>\<open>datetime.now(timezone.utc)\<close>) and the statements executed so far.
\<close>

record world =
  measurements :: "measurement_row list"
  stations :: "station_row list"
  clock :: datetime
  executed :: "(statement \<times> params) list"

definition log_statement :: "statement \<Rightarrow> params \<Rightarrow> world \<Rightarrow> world" where
  "log_statement sql ps w = w\<lparr>executed := executed w @ [(sql, ps)]\<rparr>"

definition execute_measurements ::
  "measurements_sql \<Rightarrow> params \<Rightarrow> world \<Rightarrow> (error + measurement_row list) \<times> world" where
  "execute_measurements sql ps w =
     (select_measurements sql ps (measurements w), log_statement (Measurements_stmt sql) ps w)"

section \<open>\<^verbatim>\<open>GET /measurements\<close>\<close>

text \<open>Truthiness of an \<^verbatim>\<open>Optional[str]\<close>: \<^verbatim>\<open>None\<close> and \<^verbatim>\<open>""\<close> are false.\<close>

definition truthy :: "string option \<Rightarrow> bool" where
  "truthy s = (case s of None \<Rightarrow> False | Some v \<Rightarrow> v \<noteq> [])"

definition to_Measurement :: "measurement_row \<Rightarrow> Measurement" where
  "to_Measurement row =
     \<lparr>meas_station_id = m_station_id row,
      meas_pollutant = m_pollutant row,
      meas_value = m_value row,
      meas_unit = m_unit row,
      meas_city = m_city row,
      meas_location_name = m_location_name row,
      meas_lat = m_lat row,
      meas_lon = m_lon row,
      meas_country = m_country row,
      meas_timestamp = m_ts row,
      meas_source = m_source row\<rparr>"

definition list_measurements ::
  "int \<Rightarrow> int \<Rightarrow> string option \<Rightarrow> string option \<Rightarrow> string option \<Rightarrow> bool \<Rightarrow> world
     \<Rightarrow> (error + Measurement list) \<times> world" where
  "list_measurements limit offset station_id country pollutant latest_per_station w =
     (let filters = [];
          params = [];
          (filters, params) =
            (if truthy station_id
             then (filters @ [Eq_param M_station_id ''station_id''],
                   dict_set ''station_id'' (text_opt station_id) params)
             else (filters, params));
          (filters, params) =
            (if truthy country
             then (filters @ [Eq_param M_country ''country''],
                   dict_set ''country'' (text_opt country) params)
             else (filters, params));
          (filters, params) =
            (if truthy pollutant
             then (filters @ [Eq_param M_pollutant ''pollutant''],
                   dict_set ''pollutant'' (text_opt pollutant) params)
             else (filters, params));
          where_clause = filters;
          sql = (if latest_per_station then Select_latest where_clause
                 else Select_plain where_clause);
          sql = Select_plain where_clause;
          params = dict_set ''offset'' (Integer offset) (dict_set ''limit'' (Integer limit) params);
          (rows, w') = execute_measurements sql params w
      in (case rows of
            Inl e \<Rightarrow> (Inl e, w')
          | Inr rows \<Rightarrow> (Inr (map to_Measurement rows), w')))"

section \<open>\<^verbatim>\<open>GET /measurements/timeseries\<close>\<close>

text \<open>
  \<^verbatim>\<open>SELECT station_id, pollutant, value, unit, country, city, location_name, ts, source
  FROM measurements
  WHERE station_id = %(station_id)s AND pollutant = %(pollutant)s AND ts >= %(since)s
  ORDER BY ts\<close>

  The rows of the result are kept as table rows; the handler reads their nine selected
  columns only.
\<close>

definition timeseries_where :: "m_column cond list" where
  "timeseries_where =
     [Eq_param M_station_id ''station_id'', Eq_param M_pollutant ''pollutant'',
      Ge_param M_ts ''since'']"

definition select_timeseries ::
  "params \<Rightarrow> measurement_row list \<Rightarrow> error + measurement_row list" where
  "select_timeseries ps tbl =
     (if list_all (bound ps) timeseries_where
      then Inr (order_by m_ts (where_rows measurement_col ps timeseries_where tbl))
      else Inl DatabaseError)"

definition execute_timeseries ::
  "params \<Rightarrow> world \<Rightarrow> (error + measurement_row list) \<times> world" where
  "execute_timeseries ps w =
     (select_timeseries ps (measurements w), log_statement Timeseries_stmt ps w)"

definition to_TimePoint :: "measurement_row \<Rightarrow> TimePoint" where
  "to_TimePoint row =
     \<lparr>tp_station_id = m_station_id row,
      tp_pollutant = m_pollutant row,
      tp_value = m_value row,
      tp_unit = m_unit row,
      tp_country = m_country row,
      tp_city = m_city row,
      tp_location_name = m_location_name row,
      tp_timestamp = m_ts row,
      tp_source = m_source row\<rparr>"

definition measurements_timeseries ::
  "string \<Rightarrow> string \<Rightarrow> int \<Rightarrow> world \<Rightarrow> (error + TimePoint list) \<times> world" where
  "measurements_timeseries station_id pollutant hours w =
     (let since = clock w - timedelta_hours hours;
          params = [(''station_id'', Text station_id), (''pollutant'', Text pollutant),
                    (''since'', Timestamp since)];
          (rows, w') = execute_timeseries params w
      in (case rows of
            Inl e \<Rightarrow> (Inl e, w')
          | Inr rows \<Rightarrow>
              if rows = []
              then (Inl (HTTPException 404 ''No measurements for given station/pollutant''), w')
              else (Inr (map to_TimePoint rows), w')))"

section \<open>\<^verbatim>\<open>GET /stations\<close>\<close>

text \<open>
  \<^verbatim>\<open>WITH latest_meas AS (
    SELECT DISTINCT ON (station_id) station_id, source, pollutant, value, unit, ts
    FROM measurements m {meas_where} ORDER BY station_id, ts DESC)
  SELECT s.station_id, s.source, s.country, s.city, s.location_name, s.lat, s.lon,
         lm.pollutant, lm.value, lm.unit, lm.ts
  FROM stations s JOIN latest_meas lm ON lm.station_id = s.station_id {station_where}\<close>

  A row of the result is the pair of the station row and the \<^verbatim>\<open>latest_meas\<close> row it
  joins; the eleven selected columns are read from the two. The statement has no outer
  \<^verbatim>\<open>ORDER BY\<close>, so SQL leaves the order of its rows open; here it is the order of a
  nested loop over the stations.
\<close>

definition join_on_station_id ::
  "station_row list \<Rightarrow> measurement_row list \<Rightarrow> (station_row \<times> measurement_row) list" where
  "join_on_station_id ss lms =
     concat (map (\<lambda>s. map (Pair s) (filter (\<lambda>lm. m_station_id lm = s_station_id s) lms)) ss)"

definition joined_station_col :: "s_column \<Rightarrow> station_row \<times> 'a \<Rightarrow> val" where
  "joined_station_col c row = station_col c (fst row)"

definition select_stations ::
  "m_column cond list \<Rightarrow> s_column cond list \<Rightarrow> params \<Rightarrow> measurement_row list
     \<Rightarrow> station_row list \<Rightarrow> error + (station_row \<times> measurement_row) list" where
  "select_stations meas_where station_where ps ms ss =
     (if list_all (bound ps) meas_where \<and> list_all (bound ps) station_where
      then
        (let latest_meas =
               distinct_on m_station_id
                 (order_by (\<lambda>m. (m_station_id m, - m_ts m))
                   (where_rows measurement_col ps meas_where ms))
         in Inr (where_rows joined_station_col ps station_where
                   (join_on_station_id ss latest_meas)))
      else Inl DatabaseError)"

definition execute_stations ::
  "m_column cond list \<Rightarrow> s_column cond list \<Rightarrow> params \<Rightarrow> world
     \<Rightarrow> (error + (station_row \<times> measurement_row) list) \<times> world" where
  "execute_stations meas_where station_where ps w =
     (select_stations meas_where station_where ps (measurements w) (stations w),
      log_statement (Stations_stmt meas_where station_where) ps w)"

text \<open>
  A GeoJSON feature: \<^verbatim>\<open>geometry.coordinates\<close> and the entries of \<^verbatim>\<open>properties\<close>.
  The constant members (\<^verbatim>\<open>"type": "Feature"\<close>, \<^verbatim>\<open>"type": "Point"\<close>) are left out, and
  the ISO-8601 text of a timestamp is represented by the instant it denotes.
\<close>

record Feature =
  coordinates :: "real option list"
  p_station_id :: string
  p_source :: "string option"
  p_country :: "string option"
  p_city :: "string option"
  p_location_name :: "string option"
  p_pollutant :: string
  p_value :: "real option"
  p_unit :: "string option"
  p_timestamp :: datetime

record FeatureCollection =
  features :: "Feature list"

definition to_Feature :: "station_row \<times> measurement_row \<Rightarrow> Feature" where
  "to_Feature row =
     (let lon = s_lon (fst row);
          lat = s_lat (fst row)
      in \<lparr>coordinates = [lon, lat],
          p_station_id = s_station_id (fst row),
          p_source = s_source (fst row),
          p_country = s_country (fst row),
          p_city = s_city (fst row),
          p_location_name = s_location_name (fst row),
          p_pollutant = m_pollutant (snd row),
          p_value = m_value (snd row),
          p_unit = m_unit (snd row),
          p_timestamp = m_ts (snd row)\<rparr>)"

definition list_stations ::
  "string option \<Rightarrow> string option \<Rightarrow> world \<Rightarrow> (error + FeatureCollection) \<times> world" where
  "list_stations country pollutant w =
     (let params = [];
          meas_filters = [];
          (meas_filters, params) =
            (if truthy pollutant
             then (meas_filters @ [Eq_param M_pollutant ''pollutant''],
                   dict_set ''pollutant'' (text_opt pollutant) params)
             else (meas_filters, params));
          meas_where = meas_filters;
          station_filters = [Is_not_null S_lat, Is_not_null S_lon];
          (station_filters, params) =
            (if truthy country
             then (station_filters @ [Eq_param S_country ''country''],
                   dict_set ''country'' (text_opt country) params)
             else (station_filters, params));
          station_where = station_filters;
          (rows, w') = execute_stations meas_where station_where params w
      in (case rows of
            Inl e \<Rightarrow> (Inl e, w')
          | Inr rows \<Rightarrow> (Inr \<lparr>features = map to_Feature rows\<rparr>, w')))"

section \<open>\<^verbatim>\<open>GET /stations_wkt\<close>\<close>

text \<open>
  \<^verbatim>\<open>WITH latest_meas AS (
    SELECT DISTINCT ON (station_id, pollutant) ...
    FROM measurements m {meas_where} ORDER BY station_id, pollutant, ts DESC)
  SELECT s.station_id, s.source, s.country, s.city, s.location_name, s.lat, s.lon,
         JSON_AGG(JSON_BUILD_OBJECT('pollutant', lm.pollutant, 'value', lm.value,
                                    'unit', lm.unit, 'timestamp', lm.ts)) AS measurements
  FROM stations s JOIN latest_meas lm ON lm.station_id = s.station_id {station_where}
  GROUP BY s.station_id, s.source, s.country, s.city, s.location_name, s.lat, s.lon\<close>

  The grouping columns are all the columns of \<^verbatim>\<open>stations\<close>, so a group is a station
  row. \<^verbatim>\<open>JSON_AGG\<close> of no rows is \<^verbatim>\<open>NULL\<close>. The order of the groups and of the
  entries of an aggregate is open in SQL; here both follow the joined rows.
\<close>

record measurement_json =
  j_pollutant :: string
  j_value :: "real option"
  j_unit :: "string option"
  j_timestamp :: datetime

definition json_build_object :: "measurement_row \<Rightarrow> measurement_json" where
  "json_build_object lm =
     \<lparr>j_pollutant = m_pollutant lm, j_value = m_value lm, j_unit = m_unit lm,
      j_timestamp = m_ts lm\<rparr>"

definition json_agg :: "'a list \<Rightarrow> 'a list option" where
  "json_agg xs = (if xs = [] then None else Some xs)"

definition group_by_station ::
  "(station_row \<times> measurement_row) list
     \<Rightarrow> (station_row \<times> measurement_json list option) list" where
  "group_by_station joined =
     map (\<lambda>s. (s, json_agg (map (\<lambda>row. json_build_object (snd row))
                              (filter (\<lambda>row. fst row = s) joined))))
       (remdups (map fst joined))"

definition select_stations_wkt ::
  "m_column cond list \<Rightarrow> s_column cond list \<Rightarrow> params \<Rightarrow> measurement_row list
     \<Rightarrow> station_row list \<Rightarrow> error + (station_row \<times> measurement_json list option) list" where
  "select_stations_wkt meas_where station_where ps ms ss =
     (if list_all (bound ps) meas_where \<and> list_all (bound ps) station_where
      then
        (let latest_meas =
               distinct_on (\<lambda>m. (m_station_id m, m_pollutant m))
                 (order_by (\<lambda>m. ((m_station_id m, m_pollutant m), - m_ts m))
                   (where_rows measurement_col ps meas_where ms))
         in Inr (group_by_station
                   (where_rows joined_station_col ps station_where
                     (join_on_station_id ss latest_meas))))
      else Inl DatabaseError)"

definition execute_stations_wkt ::
  "m_column cond list \<Rightarrow> s_column cond list \<Rightarrow> params \<Rightarrow> world
     \<Rightarrow> (error + (station_row \<times> measurement_json list option) list) \<times> world" where
  "execute_stations_wkt meas_where station_where ps w =
     (select_stations_wkt meas_where station_where ps (measurements w) (stations w),
      log_statement (Stations_wkt_stmt meas_where station_where) ps w)"

text \<open>
  \<^verbatim>\<open>f"POINT({lon} {lat})"\<close>, kept as the two numbers it is written from rather than as
  their decimal text.
\<close>

datatype wkt_point = POINT real real

record wkt_station =
  wkt :: wkt_point
  w_station_id :: string
  w_source :: "string option"
  w_country :: "string option"
  w_city :: "string option"
  w_location_name :: "string option"
  w_measurements :: "measurement_json list"

text \<open>
  The body of the loop over the rows: \<^verbatim>\<open>None\<close> for a row that the loop skips with
  \<^verbatim>\<open>continue\<close>, otherwise the object appended to \<^verbatim>\<open>result\<close>. The aggregate arrives as
  decoded JSON, whose timestamps are already text, so the inner loop copies each entry.
\<close>

definition wkt_object :: "station_row \<times> measurement_json list option \<Rightarrow> wkt_station option" where
  "wkt_object row =
     (case s_lon (fst row) of
        None \<Rightarrow> None
      | Some lon \<Rightarrow>
          (case s_lat (fst row) of
             None \<Rightarrow> None
           | Some lat \<Rightarrow>
               (let measurements_raw = (case snd row of None \<Rightarrow> [] | Some ms \<Rightarrow> ms);
                    measurements =
                      map (\<lambda>m. \<lparr>j_pollutant = j_pollutant m, j_value = j_value m,
                                 j_unit = j_unit m, j_timestamp = j_timestamp m\<rparr>)
                        measurements_raw
                in Some \<lparr>wkt = POINT lon lat,
                         w_station_id = s_station_id (fst row),
                         w_source = s_source (fst row),
                         w_country = s_country (fst row),
                         w_city = s_city (fst row),
                         w_location_name = s_location_name (fst row),
                         w_measurements = measurements\<rparr>)))"

definition list_stations_wkt ::
  "string option \<Rightarrow> string option \<Rightarrow> world \<Rightarrow> (error + wkt_station list) \<times> world" where
  "list_stations_wkt country pollutant w =
     (let params = [];
          meas_filters = [];
          (meas_filters, params) =
            (if truthy pollutant
             then (meas_filters @ [Eq_param M_pollutant ''pollutant''],
                   dict_set ''pollutant'' (text_opt pollutant) params)
             else (meas_filters, params));
          meas_where = meas_filters;
          station_filters = [Is_not_null S_lat, Is_not_null S_lon];
          (station_filters, params) =
            (if truthy country
             then (station_filters @ [Eq_param S_country ''country''],
                   dict_set ''country'' (text_opt country) params)
             else (station_filters, params));
          station_where = station_filters;
          (rows, w') = execute_stations_wkt meas_where station_where params w
      in (case rows of
            Inl e \<Rightarrow> (Inl e, w')
          | Inr rows \<Rightarrow> (Inr (List.map_filter wkt_object rows), w')))"

section \<open>Request validation\<close>

text \<open>
  The handlers are registered with declared query parameters, for example
  \<^verbatim>\<open>limit: int = Query(100, ge=1, le=500)\<close>. The web framework checks a request against
  the declarations and calls the handler only when every parameter passes; otherwise it
  answers with a validation error that lists the offending fields. An omitted parameter
  takes the declared default.
\<close>

record int_query =
  q_default :: int
  q_ge :: "int option"
  q_le :: "int option"

definition limit_query :: int_query where
  "limit_query = \<lparr>q_default = 100, q_ge = Some 1, q_le = Some 500\<rparr>"

definition offset_query :: int_query where
  "offset_query = \<lparr>q_default = 0, q_ge = Some 0, q_le = None\<rparr>"

definition hours_query :: int_query where
  "hours_query = \<lparr>q_default = 24, q_ge = Some 1, q_le = Some 168\<rparr>"

definition validate_int :: "string \<Rightarrow> int_query \<Rightarrow> int option \<Rightarrow> string list + int" where
  "validate_int name q raw =
     (case raw of
        None \<Rightarrow> Inr (q_default q)
      | Some v \<Rightarrow>
          if (case q_ge q of None \<Rightarrow> True | Some lo \<Rightarrow> lo \<le> v)
             \<and> (case q_le q of None \<Rightarrow> True | Some hi \<Rightarrow> v \<le> hi)
          then Inr v
          else Inl [name])"

text \<open>A required parameter, \<^verbatim>\<open>Query(...)\<close>.\<close>

definition validate_required :: "string \<Rightarrow> 'a option \<Rightarrow> string list + 'a" where
  "validate_required name raw = (case raw of None \<Rightarrow> Inl [name] | Some v \<Rightarrow> Inr v)"

fun field_errors :: "string list + 'a \<Rightarrow> string list" where
  "field_errors (Inl names) = names"
| "field_errors (Inr v) = []"

text \<open>
  The routes \<^verbatim>\<open>GET /measurements\<close> and \<^verbatim>\<open>GET /measurements/timeseries\<close> as a client
  reaches them: the raw query parameters (\<open>None\<close> when omitted), validated, then the
  handler.
\<close>

definition get_measurements ::
  "int option \<Rightarrow> int option \<Rightarrow> string option \<Rightarrow> string option \<Rightarrow> string option
     \<Rightarrow> bool option \<Rightarrow> world \<Rightarrow> (error + Measurement list) \<times> world" where
  "get_measurements limit offset station_id country pollutant latest_per_station w =
     (let v_limit = validate_int ''limit'' limit_query limit;
          v_offset = validate_int ''offset'' offset_query offset
      in (case (v_limit, v_offset) of
            (Inr l, Inr off) \<Rightarrow>
              list_measurements l off station_id country pollutant
                (case latest_per_station of None \<Rightarrow> False | Some b \<Rightarrow> b) w
          | _ \<Rightarrow> (Inl (RequestValidationError (field_errors v_limit @ field_errors v_offset)), w)))"

definition get_measurements_timeseries ::
  "string option \<Rightarrow> string option \<Rightarrow> int option \<Rightarrow> world
     \<Rightarrow> (error + TimePoint list) \<times> world" where
  "get_measurements_timeseries station_id pollutant hours w =
     (let v_station_id = validate_required ''station_id'' station_id;
          v_pollutant = validate_required ''pollutant'' pollutant;
          v_hours = validate_int ''hours'' hours_query hours
      in (case (v_station_id, v_pollutant, v_hours) of
            (Inr s, Inr p, Inr h) \<Rightarrow> measurements_timeseries s p h w
          | _ \<Rightarrow>
              (Inl (RequestValidationError
                     (field_errors v_station_id @ field_errors v_pollutant @ field_errors v_hours)),
               w)))"

section \<open>Specification predicates and example data\<close>

text \<open>
  A row passes the filters of \<^verbatim>\<open>list_measurements\<close> when it agrees with every filter
  argument that is present and not empty.
\<close>

definition matches_filters ::
  "string option \<Rightarrow> string option \<Rightarrow> string option \<Rightarrow> measurement_row \<Rightarrow> bool" where
  "matches_filters station_id country pollutant m \<longleftrightarrow>
     (truthy station_id \<longrightarrow> station_id = Some (m_station_id m))
     \<and> (truthy country \<longrightarrow> m_country m = country)
     \<and> (truthy pollutant \<longrightarrow> pollutant = Some (m_pollutant m))"

text \<open>A row lies in the look-back window of a time series that starts at \<open>since\<close>.\<close>

definition in_window :: "string \<Rightarrow> string \<Rightarrow> datetime \<Rightarrow> measurement_row \<Rightarrow> bool" where
  "in_window station_id pollutant since m \<longleftrightarrow>
     m_station_id m = station_id \<and> m_pollutant m = pollutant \<and> since \<le> m_ts m"

text \<open>
  The example of the specification: station \<^verbatim>\<open>NL01491\<close> with three stored \<^verbatim>\<open>pm25\<close> rows,
  one hour, five hours and thirty hours old.
\<close>

definition example_now :: datetime where
  "example_now = 1762250400000000"

definition example_row :: "string \<Rightarrow> string \<Rightarrow> real \<Rightarrow> datetime \<Rightarrow> measurement_row" where
  "example_row station pollutant v ts =
     \<lparr>m_station_id = station, m_pollutant = pollutant, m_value = Some v,
      m_unit = Some ''ug/m3'', m_city = Some ''Amsterdam'', m_location_name = None,
      m_lat = Some 52, m_lon = Some 5, m_country = Some ''NL'', m_ts = ts,
      m_source = Some ''eea''\<rparr>"

definition example_world :: world where
  "example_world =
     \<lparr>measurements =
        [example_row ''NL01491'' ''pm25'' 10 (example_now - timedelta_hours 1),
         example_row ''NL01491'' ''pm25'' 11 (example_now - timedelta_hours 5),
         example_row ''NL01491'' ''pm25'' 12 (example_now - timedelta_hours 30)],
      stations = [],
      clock = example_now,
      executed = []\<rparr>"

text \<open>One stored row, for a request whose \<^verbatim>\<open>station_id\<close> is the empty string.\<close>

definition one_row_world :: world where
  "one_row_world =
     \<lparr>measurements = [example_row ''NL01491'' ''pm25'' 10 example_now],
      stations = [],
      clock = example_now,
      executed = []\<rparr>"

text \<open>
  Modelled from the spec: the schema of the two tables is not among the sources. The
  specification declares \<^verbatim>\<open>station_id\<close> the primary key of \<^verbatim>\<open>stations\<close>: no two station
  rows have the same \<^verbatim>\<open>station_id\<close>.
\<close>

definition stations_primary_key :: "world \<Rightarrow> bool" where
  "stations_primary_key w \<longleftrightarrow> distinct (map s_station_id (stations w))"

text \<open>
  The measurement rows that a pollutant argument selects and the station rows that
  \<^verbatim>\<open>station_where\<close> selects, and the rows of the two \<^verbatim>\<open>latest_meas\<close> subqueries over
  the table of a world.
\<close>

definition pollutant_selected :: "string option \<Rightarrow> measurement_row \<Rightarrow> bool" where
  "pollutant_selected pollutant m \<longleftrightarrow> (truthy pollutant \<longrightarrow> pollutant = Some (m_pollutant m))"

definition station_selected :: "string option \<Rightarrow> station_row \<Rightarrow> bool" where
  "station_selected country s \<longleftrightarrow>
     s_lat s \<noteq> None \<and> s_lon s \<noteq> None \<and> (truthy country \<longrightarrow> s_country s = country)"

definition latest_per_station :: "string option \<Rightarrow> world \<Rightarrow> measurement_row list" where
  "latest_per_station pollutant w =
     distinct_on m_station_id
       (order_by (\<lambda>m. (m_station_id m, - m_ts m))
         (filter (pollutant_selected pollutant) (measurements w)))"

definition latest_per_pollutant :: "string option \<Rightarrow> world \<Rightarrow> measurement_row list" where
  "latest_per_pollutant pollutant w =
     distinct_on (\<lambda>m. (m_station_id m, m_pollutant m))
       (order_by (\<lambda>m. ((m_station_id m, m_pollutant m), - m_ts m))
         (filter (pollutant_selected pollutant) (measurements w)))"


text \<open>
  A station with readings for two pollutants, and a station without a latitude.
\<close>

definition station_example :: "string \<Rightarrow> real option \<Rightarrow> real option \<Rightarrow> station_row" where
  "station_example station lat lon =
     \<lparr>s_station_id = station, s_source = Some ''eea'', s_country = Some ''NL'',
      s_city = Some ''Amsterdam'', s_location_name = None, s_lat = lat, s_lon = lon\<rparr>"

definition stations_world :: world where
  "stations_world =
     \<lparr>measurements =
        [example_row ''NL01491'' ''pm25'' 10 (example_now - timedelta_hours 1),
         example_row ''NL01491'' ''no2'' 20 (example_now - timedelta_hours 2),
         example_row ''NL01491'' ''pm25'' 11 (example_now - timedelta_hours 5),
         example_row ''NL01491'' ''no2'' 21 (example_now - timedelta_hours 3),
         example_row ''XX0001'' ''pm25'' 30 (example_now - timedelta_hours 1)],
      stations =
        [station_example ''NL01491'' (Some 52) (Some 5),
         station_example ''XX0001'' None (Some 4)],
      clock = example_now,
      executed = []\<rparr>"


text \<open>
  Two worlds whose tables are the same; they may differ in the clock and in the statements
  executed so far. The second example world stores the rows of the first in another scan
  order.
\<close>

definition same_tables :: "world \<Rightarrow> world \<Rightarrow> bool" where
  "same_tables w1 w2 \<longleftrightarrow> measurements w1 = measurements w2 \<and> stations w1 = stations w2"

definition example_world_rescanned :: world where
  "example_world_rescanned =
     \<lparr>measurements = rev (measurements example_world),
      stations = [],
      clock = example_now,
      executed = [(Timeseries_stmt, [])]\<rparr>"


text \<open>
  Two worlds that hold the same rows in both tables, in any scan order; two worlds with two
  rows of one station at the same timestamp, scanned in either order; and the world of
  the two stations with both tables scanned backwards.
\<close>

definition same_rows :: "world \<Rightarrow> world \<Rightarrow> bool" where
  "same_rows w1 w2 \<longleftrightarrow>
     mset (measurements w1) = mset (measurements w2) \<and> mset (stations w1) = mset (stations w2)"


definition tie_world :: world where
  "tie_world =
     \<lparr>measurements =
        [example_row ''NL01491'' ''pm25'' 10 (example_now - timedelta_hours 1),
         example_row ''NL01491'' ''no2'' 20 (example_now - timedelta_hours 1)],
      stations = [station_example ''NL01491'' (Some 52) (Some 5)],
      clock = example_now,
      executed = []\<rparr>"

definition tie_world_rescanned :: world where
  "tie_world_rescanned =
     \<lparr>measurements =
        [example_row ''NL01491'' ''no2'' 20 (example_now - timedelta_hours 1),
         example_row ''NL01491'' ''pm25'' 10 (example_now - timedelta_hours 1)],
      stations = [station_example ''NL01491'' (Some 52) (Some 5)],
      clock = example_now,
      executed = []\<rparr>"

definition stations_world_rescanned :: world where
  "stations_world_rescanned =
     \<lparr>measurements = rev (measurements stations_world),
      stations = rev (stations stations_world),
      clock = example_now,
      executed = []\<rparr>"


section \<open>Auxiliary facts\<close>

lemma truthy_not_None: "truthy s \<Longrightarrow> s \<noteq> None"
  by (cases s) (simp_all add: truthy_def)

lemma text_opt_eq_Text: "text_opt x = Text v \<longleftrightarrow> x = Some v"
  by (cases x) simp_all

lemma Text_eq_text_opt: "Text v = text_opt x \<longleftrightarrow> x = Some v"
  by (cases x) auto

lemma text_opt_Null: "text_opt x = Null \<longleftrightarrow> x = None"
  by (cases x) simp_all

lemma text_opt_inj: "text_opt x = text_opt y \<longleftrightarrow> x = y"
  by (cases x; cases y) auto

lemma float_opt_Null: "float_opt x = Null \<longleftrightarrow> x = None"
  by (cases x) simp_all

lemma map_of_dict_set:
  "map_of (dict_set k v ps) k' = (if k' = k then Some v else map_of ps k')"
  by (induction ps) auto

lemmas sql_simps = text_opt_eq_Text Text_eq_text_opt text_opt_Null text_opt_inj float_opt_Null
  map_of_dict_set truthy_not_None

lemma sorted_order_by: "sorted (map key (order_by key rows))"
  by (simp add: order_by_def)

lemma mset_order_by: "mset (order_by key rows) = mset rows"
  by (simp add: order_by_def)

lemma set_order_by: "set (order_by key rows) = set rows"
  by (simp add: order_by_def)

lemma order_by_Nil_iff: "order_by key rows = [] \<longleftrightarrow> rows = []"
  using mset_order_by [of key rows] by (metis mset_zero_iff)

lemma sorted_desc_neg: "sorted (map (\<lambda>x. - f x) xs) \<Longrightarrow> sorted_wrt (\<ge>) (map (f :: 'a \<Rightarrow> int) xs)"
  by (induction xs) auto

lemma sorted_wrt_take_drop: "sorted_wrt R xs \<Longrightarrow> sorted_wrt R (take n (drop k xs))"
  by simp

text \<open>What the two measurement handlers return, in terms of the table.\<close>

lemma fst_list_measurements:
  "fst (list_measurements limit offset station_id country pollutant lps w) =
     (if limit < 0 \<or> offset < 0 \<or> bigint_max < limit \<or> bigint_max < offset
      then Inl DatabaseError
      else Inr (map to_Measurement
             (take (nat limit) (drop (nat offset)
                (order_by (\<lambda>m. - m_ts m)
                   (filter (matches_filters station_id country pollutant) (measurements w)))))))"
  by (cases "truthy station_id"; cases "truthy country"; cases "truthy pollutant")
     (simp_all add: list_measurements_def execute_measurements_def limit_offset_def
        where_rows_def matches_filters_def[abs_def] sql_simps)

lemma fst_measurements_timeseries:
  "fst (measurements_timeseries station_id pollutant hours w) =
     (let rows = order_by m_ts
                   (filter (in_window station_id pollutant (clock w - timedelta_hours hours))
                      (measurements w))
      in if rows = [] then Inl (HTTPException 404 ''No measurements for given station/pollutant'')
         else Inr (map to_TimePoint rows))"
  by (simp add: measurements_timeseries_def execute_timeseries_def select_timeseries_def
        timeseries_where_def where_rows_def in_window_def[abs_def] Let_def eq_commute)

text \<open>\<^verbatim>\<open>DISTINCT ON\<close> over rows ordered by the key and then by a second column.\<close>

lemma set_distinct_on: "set (distinct_on g xs) \<subseteq> set xs"
  by (induction g xs rule: distinct_on.induct) auto

lemma keys_distinct_on: "g ` set (distinct_on g xs) = g ` set xs"
  by (induction g xs rule: distinct_on.induct) auto

lemma sorted_map_fst_key:
  "sorted (map (\<lambda>x. (g x, h x)) xs) \<Longrightarrow> sorted (map g xs)"
  by (induction xs) (auto simp: less_le)

lemma distinct_keys_distinct_on:
  "sorted (map g xs) \<Longrightarrow> distinct (map g (distinct_on g xs))"
proof (induction g xs rule: distinct_on.induct)
  case (3 g r r' rs)
  show ?case
  proof (cases "g r = g r'")
    case True
    with 3 show ?thesis by simp
  next
    case False
    from "3.prems" have "\<forall>x \<in> set (r' # rs). g r \<le> g x" by auto
    moreover from "3.prems" have "\<forall>x \<in> set (r' # rs). g r' \<le> g x" by auto
    ultimately have "\<forall>x \<in> set (r' # rs). g r \<noteq> g x"
      using False by (metis antisym list.set_intros(1))
    then have "g r \<notin> g ` set (distinct_on g (r' # rs))"
      using set_distinct_on [of g "r' # rs"] by blast
    with 3 False show ?thesis by simp
  qed
qed simp_all

lemma distinct_on_first:
  "sorted (map (\<lambda>x. (g x, h x)) xs) \<Longrightarrow> y \<in> set (distinct_on g xs) \<Longrightarrow> x \<in> set xs
     \<Longrightarrow> g x = g y \<Longrightarrow> h y \<le> h x"
proof (induction g xs arbitrary: x y rule: distinct_on.induct)
  case (1 g)
  then show ?case by simp
next
  case (2 g r)
  then show ?case by simp
next
  case (3 g r r' rs)
  from "3.prems"(1) have head: "\<forall>z \<in> set (r' # rs). g r < g z \<or> g r = g z \<and> h r \<le> h z"
    by (auto simp: less_le)
  from "3.prems"(1) have head': "\<forall>z \<in> set rs. g r' \<le> g z"
    by (auto simp: less_le)
  show ?case
  proof (cases "g r = g r'")
    case True
    from "3.prems"(1) have srt: "sorted (map (\<lambda>x. (g x, h x)) (r # rs))" by simp
    from True "3.prems"(2) have y: "y \<in> set (distinct_on g (r # rs))" by simp
    show ?thesis
    proof (cases "x = r'")
      case True
      have "h y \<le> h r"
        using "3.IH"(1) [OF \<open>g r = g r'\<close> srt y, of r] "3.prems"(4) \<open>g r = g r'\<close> True by simp
      moreover have "h r \<le> h r'" using head \<open>g r = g r'\<close> by simp
      ultimately show ?thesis using True by simp
    next
      case False
      with "3.prems"(3) have "x \<in> set (r # rs)" by auto
      from "3.IH"(1) [OF \<open>g r = g r'\<close> srt y this "3.prems"(4)] show ?thesis .
    qed
  next
    case False
    from "3.prems"(1) have srt: "sorted (map (\<lambda>x. (g x, h x)) (r' # rs))" by simp
    have lt: "\<forall>z \<in> set (r' # rs). g r < g z"
      using head head' False by (metis insert_iff list.simps(15) not_le)
    from False "3.prems"(2) have "y = r \<or> y \<in> set (distinct_on g (r' # rs))" by simp
    then show ?thesis
    proof
      assume "y = r"
      with lt "3.prems"(3,4) have "x = r" by auto
      with \<open>y = r\<close> show ?thesis by simp
    next
      assume y: "y \<in> set (distinct_on g (r' # rs))"
      with set_distinct_on [of g "r' # rs"] have "y \<in> set (r' # rs)" by blast
      with lt have "g r < g y" by blast
      with "3.prems"(4) have "x \<noteq> r" by auto
      with "3.prems"(3) have "x \<in> set (r' # rs)" by auto
      from "3.IH"(2) [OF False srt y this "3.prems"(4)] show ?thesis .
    qed
  qed
qed

text \<open>What the two station handlers return, in terms of the tables.\<close>

lemma fst_list_stations:
  "fst (list_stations country pollutant w) =
     Inr \<lparr>features = map to_Feature
            (filter (\<lambda>row. station_selected country (fst row))
               (join_on_station_id (stations w) (latest_per_station pollutant w)))\<rparr>"
  by (cases "truthy pollutant"; cases "truthy country")
     (simp_all add: list_stations_def execute_stations_def select_stations_def where_rows_def
        joined_station_col_def pollutant_selected_def[abs_def] station_selected_def[abs_def]
        latest_per_station_def sql_simps)

lemma fst_list_stations_wkt:
  "fst (list_stations_wkt country pollutant w) =
     Inr (List.map_filter wkt_object
            (group_by_station
               (filter (\<lambda>row. station_selected country (fst row))
                  (join_on_station_id (stations w) (latest_per_pollutant pollutant w)))))"
  by (cases "truthy pollutant"; cases "truthy country")
     (simp_all add: list_stations_wkt_def execute_stations_wkt_def select_stations_wkt_def
        where_rows_def joined_station_col_def pollutant_selected_def[abs_def]
        station_selected_def[abs_def] latest_per_pollutant_def sql_simps)




lemma latest_per_pollutant_subset:
  "m \<in> set (latest_per_pollutant pollutant w)
     \<Longrightarrow> m \<in> set (measurements w) \<and> pollutant_selected pollutant m"
  using set_distinct_on [of "\<lambda>m. (m_station_id m, m_pollutant m)"
      "order_by (\<lambda>m. ((m_station_id m, m_pollutant m), - m_ts m))
         (filter (pollutant_selected pollutant) (measurements w))"]
  by (auto simp: latest_per_pollutant_def set_order_by)

lemma latest_per_pollutant_distinct:
  "distinct (map (\<lambda>m. (m_station_id m, m_pollutant m)) (latest_per_pollutant pollutant w))"
proof -
  let ?key = "\<lambda>m. (m_station_id m, m_pollutant m)"
  let ?rows = "order_by (\<lambda>m. (?key m, - m_ts m))
         (filter (pollutant_selected pollutant) (measurements w))"
  have "sorted (map (\<lambda>m. (?key m, - m_ts m)) ?rows)"
    by (rule sorted_order_by)
  then have "sorted (map ?key ?rows)"
    by (rule sorted_map_fst_key)
  then have "distinct (map ?key (distinct_on ?key ?rows))"
    by (rule distinct_keys_distinct_on)
  then show ?thesis
    by (simp only: latest_per_pollutant_def)
qed

lemma latest_per_pollutant_keys:
  "(\<lambda>m. (m_station_id m, m_pollutant m)) ` set (latest_per_pollutant pollutant w)
     = (\<lambda>m. (m_station_id m, m_pollutant m))
         ` {m \<in> set (measurements w). pollutant_selected pollutant m}"
  by (simp add: latest_per_pollutant_def keys_distinct_on set_order_by)

lemma latest_per_pollutant_latest:
  assumes "m \<in> set (latest_per_pollutant pollutant w)"
    and "m' \<in> set (measurements w)"
    and "m_station_id m' = m_station_id m" and "m_pollutant m' = m_pollutant m"
  shows "m_ts m' \<le> m_ts m"
proof -
  let ?rows = "order_by (\<lambda>m. ((m_station_id m, m_pollutant m), - m_ts m))
         (filter (pollutant_selected pollutant) (measurements w))"
  have "pollutant_selected pollutant m"
    using assms(1) by (simp add: latest_per_pollutant_subset)
  then have sel: "pollutant_selected pollutant m'"
    using assms(4) by (simp add: pollutant_selected_def)
  have "sorted (map (\<lambda>m. ((m_station_id m, m_pollutant m), - m_ts m)) ?rows)"
    by (rule sorted_order_by)
  moreover have "m \<in> set (distinct_on (\<lambda>m. (m_station_id m, m_pollutant m)) ?rows)"
    using assms(1) by (simp add: latest_per_pollutant_def)
  moreover have "m' \<in> set ?rows"
    using assms(2) sel by (simp add: set_order_by)
  moreover have "(m_station_id m', m_pollutant m') = (m_station_id m, m_pollutant m)"
    using assms(3,4) by simp
  ultimately have "- m_ts m \<le> - m_ts m'"
    by (rule distinct_on_first)
  then show ?thesis by simp
qed

text \<open>The join of stations with their latest measurements.\<close>

lemma set_join_on_station_id:
  "set (join_on_station_id ss lms)
     = {(s, lm). s \<in> set ss \<and> lm \<in> set lms \<and> m_station_id lm = s_station_id s}"
  by (auto simp: join_on_station_id_def)

lemma join_on_station_id_Cons:
  "join_on_station_id (s # ss) lms
     = map (Pair s) (filter (\<lambda>lm. m_station_id lm = s_station_id s) lms)
       @ join_on_station_id ss lms"
  by (simp add: join_on_station_id_def)

lemma join_on_station_id_Nil: "join_on_station_id [] lms = []"
  by (simp add: join_on_station_id_def)


lemma filter_join_station:
  assumes "distinct ss" and "s \<in> set ss"
  shows "filter (\<lambda>row. fst row = s) (join_on_station_id ss lms)
           = map (Pair s) (filter (\<lambda>lm. m_station_id lm = s_station_id s) lms)"
  using assms
proof (induction ss)
  case Nil
  then show ?case by simp
next
  case (Cons a ss)
  show ?case
  proof (cases "a = s")
    case True
    with Cons.prems have "s \<notin> set ss" by simp
    then have "filter (\<lambda>row. fst row = s) (join_on_station_id ss lms) = []"
      by (auto simp: filter_empty_conv set_join_on_station_id)
    with True show ?thesis
      by (simp add: join_on_station_id_Cons comp_def)
  next
    case False
    with Cons show ?thesis
      by (simp add: join_on_station_id_Cons comp_def)
  qed
qed

lemma to_Feature_sel:
  "p_station_id (to_Feature row) = s_station_id (fst row)"
  "coordinates (to_Feature row) = [s_lon (fst row), s_lat (fst row)]"
  "p_pollutant (to_Feature row) = m_pollutant (snd row)"
  "p_value (to_Feature row) = m_value (snd row)"
  "p_unit (to_Feature row) = m_unit (snd row)"
  "p_timestamp (to_Feature row) = m_ts (snd row)"
  by (simp_all add: to_Feature_def)

lemma selected_join_row:
  assumes "row \<in> set (filter (\<lambda>row. station_selected country (fst row))
                        (join_on_station_id ss lms))"
  shows "fst row \<in> set ss \<and> snd row \<in> set lms \<and> m_station_id (snd row) = s_station_id (fst row)
         \<and> s_lat (fst row) \<noteq> None \<and> s_lon (fst row) \<noteq> None"
proof -
  from assms have "row \<in> set (join_on_station_id ss lms)"
    and "station_selected country (fst row)"
    by simp_all
  then show ?thesis
    by (simp add: set_join_on_station_id station_selected_def case_prod_beta)
qed


lemma set_map_filter_iff:
  "y \<in> set (List.map_filter f xs) \<longleftrightarrow> (\<exists>x \<in> set xs. f x = Some y)"
  by (induction xs) (auto split: option.splits)

lemma wkt_object_Some:
  assumes "wkt_object (s, agg) = Some obj"
  shows "w_station_id obj = s_station_id s
         \<and> w_measurements obj = (case agg of None \<Rightarrow> [] | Some ms \<Rightarrow> ms)
         \<and> (\<exists>lon lat. s_lon s = Some lon \<and> s_lat s = Some lat \<and> wkt obj = POINT lon lat)"
proof -
  have copy: "map (\<lambda>m. \<lparr>j_pollutant = j_pollutant m, j_value = j_value m,
                         j_unit = j_unit m, j_timestamp = j_timestamp m\<rparr>) ms = ms"
    for ms :: "measurement_json list"
    by (induction ms) simp_all
  from assms show ?thesis
    by (auto simp: wkt_object_def copy split: option.splits)
qed

lemma json_agg_cases: "(case json_agg xs of None \<Rightarrow> [] | Some ms \<Rightarrow> ms) = xs"
  by (simp add: json_agg_def)

lemma group_by_station_row:
  assumes "row \<in> set (group_by_station joined)"
  shows "fst row \<in> fst ` set joined
         \<and> snd row = json_agg (map (\<lambda>r. json_build_object (snd r))
                                 (filter (\<lambda>r. fst r = fst row) joined))"
  using assms by (force simp: group_by_station_def)

lemma filter_selected_join:
  assumes "distinct ss" and "s \<in> set ss" and "station_selected country s"
  shows "filter (\<lambda>r. fst r = s)
           (filter (\<lambda>row. station_selected country (fst row)) (join_on_station_id ss lms))
         = map (Pair s) (filter (\<lambda>lm. m_station_id lm = s_station_id s) lms)"
proof -
  have "filter (\<lambda>r. fst r = s)
           (filter (\<lambda>row. station_selected country (fst row)) (join_on_station_id ss lms))
        = filter (\<lambda>row. station_selected country (fst row))
            (filter (\<lambda>r. fst r = s) (join_on_station_id ss lms))"
    by (simp add: conj_commute)
  also have "\<dots> = filter (\<lambda>row. station_selected country (fst row))
            (map (Pair s) (filter (\<lambda>lm. m_station_id lm = s_station_id s) lms))"
    using assms(1,2) by (simp only: filter_join_station)
  also have "\<dots> = map (Pair s) (filter (\<lambda>lm. m_station_id lm = s_station_id s) lms)"
    using assms(3) by (simp add: filter_map comp_def)
  finally show ?thesis .
qed

lemma latest_of_station_distinct:
  "distinct (map m_pollutant
     (filter (\<lambda>lm. m_station_id lm = sid) (latest_per_pollutant pollutant w)))"
proof -
  let ?key = "\<lambda>m. (m_station_id m, m_pollutant m)"
  let ?own = "filter (\<lambda>lm. m_station_id lm = sid) (latest_per_pollutant pollutant w)"
  have "distinct (map ?key ?own)"
    using latest_per_pollutant_distinct by (rule distinct_map_filter)
  then have "distinct ?own" and "inj_on ?key (set ?own)"
    by (simp_all add: distinct_map)
  moreover from \<open>inj_on ?key (set ?own)\<close> have "inj_on m_pollutant (set ?own)"
    by (auto simp: inj_on_def)
  ultimately show ?thesis
    by (simp add: distinct_map)
qed

lemma latest_of_station_pollutants:
  "m_pollutant ` set (filter (\<lambda>lm. m_station_id lm = sid) (latest_per_pollutant pollutant w))
     = m_pollutant ` {m \<in> set (measurements w).
                        m_station_id m = sid \<and> pollutant_selected pollutant m}"
proof (intro set_eqI iffI)
  fix q
  assume "q \<in> m_pollutant
     ` set (filter (\<lambda>lm. m_station_id lm = sid) (latest_per_pollutant pollutant w))"
  then obtain m where "m \<in> set (latest_per_pollutant pollutant w)"
    and "m_station_id m = sid" and "q = m_pollutant m"
    by auto
  then show "q \<in> m_pollutant ` {m \<in> set (measurements w).
                        m_station_id m = sid \<and> pollutant_selected pollutant m}"
    using latest_per_pollutant_subset [of m pollutant w] by blast
next
  fix q
  assume "q \<in> m_pollutant ` {m \<in> set (measurements w).
                        m_station_id m = sid \<and> pollutant_selected pollutant m}"
  then obtain m where m: "m \<in> set (measurements w)" "pollutant_selected pollutant m"
    and "m_station_id m = sid" and "q = m_pollutant m"
    by auto
  then have "(sid, q) \<in> (\<lambda>m. (m_station_id m, m_pollutant m))
         ` {m \<in> set (measurements w). pollutant_selected pollutant m}"
    by force
  then have "(sid, q) \<in> (\<lambda>m. (m_station_id m, m_pollutant m))
         ` set (latest_per_pollutant pollutant w)"
    by (simp only: latest_per_pollutant_keys)
  then obtain x where "x \<in> set (latest_per_pollutant pollutant w)"
    and "m_station_id x = sid" and "m_pollutant x = q"
    by auto
  then show "q \<in> m_pollutant
     ` set (filter (\<lambda>lm. m_station_id lm = sid) (latest_per_pollutant pollutant w))"
    by force
qed

lemma list_stations_wkt_object:
  assumes pk: "distinct (map s_station_id (stations w))"
    and obj: "obj \<in> set (List.map_filter wkt_object
              (group_by_station
                 (filter (\<lambda>row. station_selected country (fst row))
                    (join_on_station_id (stations w) (latest_per_pollutant pollutant w)))))"
  shows "\<exists>s \<in> set (stations w).
           station_selected country s
           \<and> w_station_id obj = s_station_id s
           \<and> (\<exists>lon lat. s_lon s = Some lon \<and> s_lat s = Some lat \<and> wkt obj = POINT lon lat)
           \<and> w_measurements obj
               = map json_build_object
                   (filter (\<lambda>lm. m_station_id lm = s_station_id s)
                      (latest_per_pollutant pollutant w))"
proof -
  define joined where "joined = filter (\<lambda>row. station_selected country (fst row))
     (join_on_station_id (stations w) (latest_per_pollutant pollutant w))"
  from obj obtain row where row: "row \<in> set (group_by_station joined)"
    and some: "wkt_object row = Some obj"
    unfolding joined_def [symmetric] set_map_filter_iff by blast
  define s where "s = fst row"
  from row have grp: "s \<in> fst ` set joined"
    and agg: "snd row = json_agg (map (\<lambda>r. json_build_object (snd r))
                                 (filter (\<lambda>r. fst r = s) joined))"
    unfolding s_def by (simp_all add: group_by_station_row)
  from grp obtain r where r: "r \<in> set joined" and "fst r = s"
    by auto
  then have sel: "station_selected country s" and mem: "s \<in> set (stations w)"
    using selected_join_row [of r country "stations w" "latest_per_pollutant pollutant w"]
    by (simp_all add: joined_def)
  from pk have "distinct (stations w)"
    by (simp add: distinct_map)
  then have "filter (\<lambda>r. fst r = s) joined
      = map (Pair s) (filter (\<lambda>lm. m_station_id lm = s_station_id s)
                        (latest_per_pollutant pollutant w))"
    unfolding joined_def using mem sel by (rule filter_selected_join)
  with agg have agg': "snd row = json_agg (map json_build_object
      (filter (\<lambda>lm. m_station_id lm = s_station_id s) (latest_per_pollutant pollutant w)))"
    by (simp add: comp_def)
  from some have "wkt_object (s, snd row) = Some obj"
    by (simp add: s_def)
  from wkt_object_Some [OF this] agg' sel mem show ?thesis
    by (intro bexI [of _ s]) (simp_all add: json_agg_cases)
qed


text \<open>
  Executed, the two statements that \<^verbatim>\<open>list_measurements\<close> writes give different rows:
  the statement with \<^verbatim>\<open>DISTINCT ON\<close> keeps one row for each station and pollutant.
\<close>

lemma latest_statement_differs:
  "select_measurements (Select_latest []) [(''limit'', Integer 100), (''offset'', Integer 0)]
     (measurements stations_world)
   \<noteq> select_measurements (Select_plain []) [(''limit'', Integer 100), (''offset'', Integer 0)]
       (measurements stations_world)"
  by code_simp

text \<open>
  Ordering two arrangements of the same rows, and what a handler leaves of the world.
\<close>

lemma map_key_sort_key_cong:
  assumes "mset xs = mset ys"
  shows "map k (sort_key k xs) = map k (sort_key k ys)"
proof -
  have "sort (map k ys) = map k (sort_key k xs)"
    by (rule properties_for_sort) (simp_all add: assms)
  moreover have "sort (map k ys) = map k (sort_key k ys)"
    by (rule properties_for_sort) simp_all
  ultimately show ?thesis by simp
qed

lemma sort_key_distinct_cong:
  assumes "mset xs = mset ys" and "distinct (map k xs)"
  shows "sort_key k xs = sort_key k ys"
proof (rule sort_key_inj_key_eq)
  show "mset xs = mset (sort_key k ys)" using assms(1) by simp
  show "inj_on k (set xs)" using assms(2) by (simp add: distinct_map)
  show "sorted (map k (sort_key k ys))" by simp
qed

lemma world_after_log:
  "measurements (log_statement sql ps w) = measurements w"
  "stations (log_statement sql ps w) = stations w"
  "clock (log_statement sql ps w) = clock w"
  by (simp_all add: log_statement_def)

lemma snd_list_measurements:
  "measurements (snd (list_measurements limit offset station_id country pollutant lps w))
     = measurements w
   \<and> stations (snd (list_measurements limit offset station_id country pollutant lps w))
     = stations w
   \<and> clock (snd (list_measurements limit offset station_id country pollutant lps w)) = clock w"
  by (cases "truthy station_id"; cases "truthy country"; cases "truthy pollutant")
     (simp_all add: list_measurements_def execute_measurements_def world_after_log Let_def
        split: sum.splits)

lemma snd_measurements_timeseries:
  "measurements (snd (measurements_timeseries station_id pollutant hours w)) = measurements w
   \<and> stations (snd (measurements_timeseries station_id pollutant hours w)) = stations w
   \<and> clock (snd (measurements_timeseries station_id pollutant hours w)) = clock w"
  by (simp add: measurements_timeseries_def execute_timeseries_def world_after_log Let_def
        split: sum.splits)

lemma snd_list_stations:
  "measurements (snd (list_stations country pollutant w)) = measurements w
   \<and> stations (snd (list_stations country pollutant w)) = stations w
   \<and> clock (snd (list_stations country pollutant w)) = clock w"
  by (cases "truthy pollutant"; cases "truthy country")
     (simp_all add: list_stations_def execute_stations_def world_after_log Let_def
        split: sum.splits)

lemma snd_list_stations_wkt:
  "measurements (snd (list_stations_wkt country pollutant w)) = measurements w
   \<and> stations (snd (list_stations_wkt country pollutant w)) = stations w
   \<and> clock (snd (list_stations_wkt country pollutant w)) = clock w"
  by (cases "truthy pollutant"; cases "truthy country")
     (simp_all add: list_stations_wkt_def execute_stations_wkt_def world_after_log Let_def
        split: sum.splits)

lemma ts_order_by_desc_cong:
  assumes "mset xs = mset ys"
  shows "map m_ts (order_by (\<lambda>m. - m_ts m) xs) = map m_ts (order_by (\<lambda>m. - m_ts m) ys)"
proof -
  have "map (\<lambda>m. - m_ts m) (order_by (\<lambda>m. - m_ts m) xs)
      = map (\<lambda>m. - m_ts m) (order_by (\<lambda>m. - m_ts m) ys)"
    unfolding order_by_def using assms by (rule map_key_sort_key_cong)
  then have "map uminus (map (\<lambda>m. - m_ts m) (order_by (\<lambda>m. - m_ts m) xs))
      = map uminus (map (\<lambda>m. - m_ts m) (order_by (\<lambda>m. - m_ts m) ys))"
    by (rule arg_cong)
  then show ?thesis
    by (simp add: comp_def)
qed

lemma order_by_desc_distinct_cong:
  assumes "mset xs = mset ys" and "distinct (map m_ts xs)"
  shows "order_by (\<lambda>m. - m_ts m) xs = order_by (\<lambda>m. - m_ts m) ys"
proof -
  from assms(2) have "distinct (map (\<lambda>m. - m_ts m) xs)"
    by (auto simp: distinct_map inj_on_def)
  with assms(1) show ?thesis
    unfolding order_by_def by (rule sort_key_distinct_cong)
qed

lemma list_measurements_same_rows:
  assumes "mset (measurements w1) = mset (measurements w2)"
  shows "rel_sum (=) (\<lambda>ms1 ms2. map meas_timestamp ms1 = map meas_timestamp ms2)
           (fst (list_measurements limit offset station_id country pollutant lps w1))
           (fst (list_measurements limit offset station_id country pollutant lps w2))"
    and "distinct (map m_ts (filter (matches_filters station_id country pollutant)
                               (measurements w1)))
         \<Longrightarrow> fst (list_measurements limit offset station_id country pollutant lps w1)
             = fst (list_measurements limit offset station_id country pollutant lps w2)"
proof -
  let ?P = "matches_filters station_id country pollutant"
  from assms have perm: "mset (filter ?P (measurements w1)) = mset (filter ?P (measurements w2))"
    by simp
  have ts: "meas_timestamp \<circ> to_Measurement = m_ts"
    by (rule ext) (simp add: to_Measurement_def)
  have "map m_ts (take (nat limit) (drop (nat offset)
            (order_by (\<lambda>m. - m_ts m) (filter ?P (measurements w1)))))
      = map m_ts (take (nat limit) (drop (nat offset)
            (order_by (\<lambda>m. - m_ts m) (filter ?P (measurements w2)))))"
    unfolding take_map [symmetric] drop_map [symmetric]
    using ts_order_by_desc_cong [OF perm] by simp
  then show "rel_sum (=) (\<lambda>ms1 ms2. map meas_timestamp ms1 = map meas_timestamp ms2)
           (fst (list_measurements limit offset station_id country pollutant lps w1))
           (fst (list_measurements limit offset station_id country pollutant lps w2))"
    by (simp add: fst_list_measurements ts)
  show "fst (list_measurements limit offset station_id country pollutant lps w1)
             = fst (list_measurements limit offset station_id country pollutant lps w2)"
    if "distinct (map m_ts (filter ?P (measurements w1)))"
    using order_by_desc_distinct_cong [OF perm that] by (simp add: fst_list_measurements)
qed

lemma measurements_timeseries_same_rows:
  assumes "mset (measurements w1) = mset (measurements w2)" and "clock w1 = clock w2"
  shows "rel_sum (=) (\<lambda>tps1 tps2. mset tps1 = mset tps2
                         \<and> map tp_timestamp tps1 = map tp_timestamp tps2)
           (fst (measurements_timeseries station_id pollutant hours w1))
           (fst (measurements_timeseries station_id pollutant hours w2))"
    and "distinct (map m_ts (filter (in_window station_id pollutant
                                        (clock w1 - timedelta_hours hours))
                               (measurements w1)))
         \<Longrightarrow> fst (measurements_timeseries station_id pollutant hours w1)
             = fst (measurements_timeseries station_id pollutant hours w2)"
proof -
  let ?P = "in_window station_id pollutant (clock w1 - timedelta_hours hours)"
  let ?r1 = "order_by m_ts (filter ?P (measurements w1))"
  let ?r2 = "order_by m_ts (filter ?P (measurements w2))"
  from assms(1) have perm: "mset (filter ?P (measurements w1)) = mset (filter ?P (measurements w2))"
    by simp
  have run1: "fst (measurements_timeseries station_id pollutant hours w1)
      = (if ?r1 = [] then Inl (HTTPException 404 ''No measurements for given station/pollutant'')
         else Inr (map to_TimePoint ?r1))"
    by (simp add: fst_measurements_timeseries Let_def)
  have run2: "fst (measurements_timeseries station_id pollutant hours w2)
      = (if ?r2 = [] then Inl (HTTPException 404 ''No measurements for given station/pollutant'')
         else Inr (map to_TimePoint ?r2))"
    by (simp add: fst_measurements_timeseries Let_def assms(2))
  have m: "mset ?r1 = mset ?r2"
    using perm by (simp only: mset_order_by)
  then have e: "?r1 = [] \<longleftrightarrow> ?r2 = []"
    by (metis mset_zero_iff)
  have "map m_ts ?r1 = map m_ts ?r2"
    unfolding order_by_def using perm by (rule map_key_sort_key_cong)
  moreover have "map tp_timestamp (map to_TimePoint rows) = map m_ts rows" for rows
    by (simp add: to_TimePoint_def)
  ultimately have t: "map tp_timestamp (map to_TimePoint ?r1)
      = map tp_timestamp (map to_TimePoint ?r2)"
    by (simp only:)
  from m have "mset (map to_TimePoint ?r1) = mset (map to_TimePoint ?r2)"
    by (simp only: mset_map)
  with t e show "rel_sum (=) (\<lambda>tps1 tps2. mset tps1 = mset tps2
                         \<and> map tp_timestamp tps1 = map tp_timestamp tps2)
           (fst (measurements_timeseries station_id pollutant hours w1))
           (fst (measurements_timeseries station_id pollutant hours w2))"
    unfolding run1 run2 by simp
  show "fst (measurements_timeseries station_id pollutant hours w1)
             = fst (measurements_timeseries station_id pollutant hours w2)"
    if "distinct (map m_ts (filter ?P (measurements w1)))"
  proof -
    have "?r1 = ?r2"
      unfolding order_by_def using perm that by (rule sort_key_distinct_cong)
    then show ?thesis
      unfolding run1 run2 by simp
  qed
qed

lemma same_tables_responses:
  assumes "same_tables w1 w2"
  shows "fst (list_measurements limit offset station_id country pollutant lps w1)
           = fst (list_measurements limit offset station_id country pollutant lps w2)"
    and "fst (list_stations country pollutant w1) = fst (list_stations country pollutant w2)"
    and "fst (list_stations_wkt country pollutant w1)
           = fst (list_stations_wkt country pollutant w2)"
    and "clock w1 = clock w2
         \<Longrightarrow> fst (measurements_timeseries station_id' pollutant' hours w1)
             = fst (measurements_timeseries station_id' pollutant' hours w2)"
  using assms
  by (simp_all add: same_tables_def fst_list_measurements fst_list_stations
        fst_list_stations_wkt fst_measurements_timeseries latest_per_station_def
        latest_per_pollutant_def)


text \<open>The station handlers over the same rows in another scan order.\<close>

lemma latest_per_station_cong:
  assumes "mset (measurements w1) = mset (measurements w2)"
    and "distinct (map (\<lambda>m. (m_station_id m, m_ts m))
           (filter (pollutant_selected pollutant) (measurements w1)))"
  shows "latest_per_station pollutant w1 = latest_per_station pollutant w2"
proof -
  let ?sel1 = "filter (pollutant_selected pollutant) (measurements w1)"
  let ?sel2 = "filter (pollutant_selected pollutant) (measurements w2)"
  from assms(1) have perm: "mset ?sel1 = mset ?sel2"
    by simp
  from assms(2) have "distinct (map (\<lambda>m. (m_station_id m, - m_ts m)) ?sel1)"
    by (auto simp: distinct_map inj_on_def)
  with perm have "sort_key (\<lambda>m. (m_station_id m, - m_ts m)) ?sel1
      = sort_key (\<lambda>m. (m_station_id m, - m_ts m)) ?sel2"
    by (rule sort_key_distinct_cong)
  then show ?thesis
    by (simp add: latest_per_station_def order_by_def)
qed

lemma latest_per_pollutant_cong:
  assumes "mset (measurements w1) = mset (measurements w2)"
    and "distinct (map (\<lambda>m. (m_station_id m, m_pollutant m, m_ts m))
           (filter (pollutant_selected pollutant) (measurements w1)))"
  shows "latest_per_pollutant pollutant w1 = latest_per_pollutant pollutant w2"
proof -
  let ?sel1 = "filter (pollutant_selected pollutant) (measurements w1)"
  let ?sel2 = "filter (pollutant_selected pollutant) (measurements w2)"
  from assms(1) have perm: "mset ?sel1 = mset ?sel2"
    by simp
  from assms(2)
  have "distinct (map (\<lambda>m. ((m_station_id m, m_pollutant m), - m_ts m)) ?sel1)"
    by (auto simp: distinct_map inj_on_def)
  with perm have "sort_key (\<lambda>m. ((m_station_id m, m_pollutant m), - m_ts m)) ?sel1
      = sort_key (\<lambda>m. ((m_station_id m, m_pollutant m), - m_ts m)) ?sel2"
    by (rule sort_key_distinct_cong)
  then show ?thesis
    by (simp add: latest_per_pollutant_def order_by_def)
qed

lemma mset_join_cong:
  assumes "mset ss1 = mset ss2"
  shows "mset (join_on_station_id ss1 lms) = mset (join_on_station_id ss2 lms)"
proof -
  let ?own = "\<lambda>s. mset (map (Pair s) (filter (\<lambda>lm. m_station_id lm = s_station_id s) lms))"
  have "mset (join_on_station_id ss lms) = sum_mset (image_mset ?own (mset ss))" for ss
    by (induction ss) (simp_all add: join_on_station_id_Nil join_on_station_id_Cons)
  with assms show ?thesis by (simp only:)
qed

lemma mset_selected_join_cong:
  assumes "mset ss1 = mset ss2"
  shows "mset (filter (\<lambda>row. station_selected country (fst row)) (join_on_station_id ss1 lms))
       = mset (filter (\<lambda>row. station_selected country (fst row)) (join_on_station_id ss2 lms))"
  using mset_join_cong [OF assms, of lms] by simp

lemma mset_map_filter:
  "mset (List.map_filter f xs) = image_mset (the \<circ> f) (filter_mset (\<lambda>x. f x \<noteq> None) (mset xs))"
  by (simp add: List.map_filter_def)

lemma mset_group_by_station_cong:
  assumes perm: "mset ss1 = mset ss2" and d: "distinct ss1"
  shows "mset (group_by_station
                 (filter (\<lambda>row. station_selected country (fst row))
                    (join_on_station_id ss1 lms)))
       = mset (group_by_station
                 (filter (\<lambda>row. station_selected country (fst row))
                    (join_on_station_id ss2 lms)))"
proof -
  let ?F = "\<lambda>ss. filter (\<lambda>row. station_selected country (fst row)) (join_on_station_id ss lms)"
  let ?G = "\<lambda>ss s. (s, json_agg (map (\<lambda>row. json_build_object (snd row))
                                  (filter (\<lambda>row. fst row = s) (?F ss))))"
  let ?own = "\<lambda>s. (s, json_agg (map (\<lambda>row. json_build_object (snd row))
      (map (Pair s) (filter (\<lambda>lm. m_station_id lm = s_station_id s) lms))))"
  from perm d have d2: "distinct ss2"
    by (simp add: mset_eq_imp_distinct_iff [OF perm])
  have F: "mset (?F ss1) = mset (?F ss2)"
    using perm by (rule mset_selected_join_cong)
  then have "set (?F ss1) = set (?F ss2)"
    by (rule mset_eq_setD)
  then have "set (map fst (?F ss1)) = set (map fst (?F ss2))"
    by (simp only: set_map)
  then have keys: "mset (remdups (map fst (?F ss1))) = mset (remdups (map fst (?F ss2)))"
    by (simp only: set_eq_iff_mset_remdups_eq)
  have own: "?G ss s = ?own s"
    if "distinct ss" and "s \<in> set (remdups (map fst (?F ss)))" for ss s
  proof -
    from that(2) obtain r where "r \<in> set (?F ss)" and "fst r = s"
      by auto
    then have "s \<in> set ss" and "station_selected country s"
      using selected_join_row [of r country ss lms] by auto
    with that(1) have "filter (\<lambda>row. fst row = s) (?F ss)
        = map (Pair s) (filter (\<lambda>lm. m_station_id lm = s_station_id s) lms)"
      by (rule filter_selected_join)
    then show ?thesis by simp
  qed
  have "mset (group_by_station (?F ss)) = image_mset ?own (mset (remdups (map fst (?F ss))))"
    if "distinct ss" for ss
  proof -
    have "mset (group_by_station (?F ss))
        = image_mset (?G ss) (mset (remdups (map fst (?F ss))))"
      by (simp add: group_by_station_def)
    also have "\<dots> = image_mset ?own (mset (remdups (map fst (?F ss))))"
      by (rule image_mset_cong) (use own [OF that] in simp)
    finally show ?thesis .
  qed
  from this [OF d] this [OF d2] keys show ?thesis
    by simp
qed

lemma list_stations_same_rows:
  assumes "same_rows w1 w2"
    and "distinct (map (\<lambda>m. (m_station_id m, m_ts m))
           (filter (pollutant_selected pollutant) (measurements w1)))"
  shows "rel_sum (=) (\<lambda>fc1 fc2. mset (features fc1) = mset (features fc2))
           (fst (list_stations country pollutant w1)) (fst (list_stations country pollutant w2))"
    and "stations w1 = stations w2
         \<Longrightarrow> fst (list_stations country pollutant w1) = fst (list_stations country pollutant w2)"
proof -
  from assms have lm: "latest_per_station pollutant w1 = latest_per_station pollutant w2"
    by (intro latest_per_station_cong) (simp_all add: same_rows_def)
  from assms(1) have "mset (stations w1) = mset (stations w2)"
    by (simp add: same_rows_def)
  then have "mset (filter (\<lambda>row. station_selected country (fst row))
                (join_on_station_id (stations w1) (latest_per_station pollutant w2)))
      = mset (filter (\<lambda>row. station_selected country (fst row))
                (join_on_station_id (stations w2) (latest_per_station pollutant w2)))"
    by (rule mset_selected_join_cong)
  then have "mset (map to_Feature (filter (\<lambda>row. station_selected country (fst row))
                (join_on_station_id (stations w1) (latest_per_station pollutant w2))))
      = mset (map to_Feature (filter (\<lambda>row. station_selected country (fst row))
                (join_on_station_id (stations w2) (latest_per_station pollutant w2))))"
    by (simp only: mset_map)
  then show "rel_sum (=) (\<lambda>fc1 fc2. mset (features fc1) = mset (features fc2))
           (fst (list_stations country pollutant w1)) (fst (list_stations country pollutant w2))"
    by (simp add: fst_list_stations lm)
  show "fst (list_stations country pollutant w1) = fst (list_stations country pollutant w2)"
    if "stations w1 = stations w2"
    by (simp add: fst_list_stations lm that)
qed

lemma list_stations_wkt_same_rows:
  assumes "same_rows w1 w2"
    and "distinct (map (\<lambda>m. (m_station_id m, m_pollutant m, m_ts m))
           (filter (pollutant_selected pollutant) (measurements w1)))"
  shows "stations w1 = stations w2
         \<Longrightarrow> fst (list_stations_wkt country pollutant w1)
             = fst (list_stations_wkt country pollutant w2)"
    and "stations_primary_key w1
         \<Longrightarrow> rel_sum (=) (\<lambda>objs1 objs2. mset objs1 = mset objs2)
               (fst (list_stations_wkt country pollutant w1))
               (fst (list_stations_wkt country pollutant w2))"
proof -
  from assms have lm: "latest_per_pollutant pollutant w1 = latest_per_pollutant pollutant w2"
    by (intro latest_per_pollutant_cong) (simp_all add: same_rows_def)
  show "fst (list_stations_wkt country pollutant w1)
             = fst (list_stations_wkt country pollutant w2)"
    if "stations w1 = stations w2"
    by (simp add: fst_list_stations_wkt lm that)
  show "rel_sum (=) (\<lambda>objs1 objs2. mset objs1 = mset objs2)
               (fst (list_stations_wkt country pollutant w1))
               (fst (list_stations_wkt country pollutant w2))"
    if "stations_primary_key w1"
  proof -
    from that have d: "distinct (stations w1)"
      by (simp add: stations_primary_key_def distinct_map)
    from assms(1) have "mset (stations w1) = mset (stations w2)"
      by (simp add: same_rows_def)
    then have "mset (group_by_station
                 (filter (\<lambda>row. station_selected country (fst row))
                    (join_on_station_id (stations w1) (latest_per_pollutant pollutant w2))))
       = mset (group_by_station
                 (filter (\<lambda>row. station_selected country (fst row))
                    (join_on_station_id (stations w2) (latest_per_pollutant pollutant w2))))"
      using d by (rule mset_group_by_station_cong)
    then have "mset (List.map_filter wkt_object (group_by_station
                 (filter (\<lambda>row. station_selected country (fst row))
                    (join_on_station_id (stations w1) (latest_per_pollutant pollutant w2)))))
       = mset (List.map_filter wkt_object (group_by_station
                 (filter (\<lambda>row. station_selected country (fst row))
                    (join_on_station_id (stations w2) (latest_per_pollutant pollutant w2)))))"
      by (simp only: mset_map_filter)
    then show ?thesis
      by (simp add: fst_list_stations_wkt lm)
  qed
qed


section \<open>The \<^verbatim>\<open>latest_per_station\<close> flag\<close>

text \<open>
  C1. The statement built for \<^verbatim>\<open>latest_per_station=true\<close> is overwritten by the plain
  statement before it is executed: with the flag set or not, \<^verbatim>\<open>list_measurements\<close>
  sends the same statement with the same parameters (the log of the connection is the
  same) and returns the same response, for all arguments and every state of the
  datastore.
\<close>

theorem list_measurements_flag_inert:
  "list_measurements limit offset station_id country pollutant True w
     = list_measurements limit offset station_id country pollutant False w"
  by (simp add: list_measurements_def)


section \<open>Empty filter arguments\<close>

text \<open>
  C10. A filter argument given as the empty string is dropped like an omitted one: the
  handler sends the same statement and returns the same response as for \<open>None\<close>. This
  holds for \<^verbatim>\<open>station_id\<close>, \<^verbatim>\<open>country\<close> and \<^verbatim>\<open>pollutant\<close> of \<^verbatim>\<open>list_measurements\<close> and for
  \<^verbatim>\<open>country\<close> and \<^verbatim>\<open>pollutant\<close> of \<^verbatim>\<open>list_stations\<close> and \<^verbatim>\<open>list_stations_wkt\<close>.
\<close>

theorem empty_string_filter_dropped:
  "list_measurements limit offset (Some []) country pollutant lps w
     = list_measurements limit offset None country pollutant lps w
   \<and> list_measurements limit offset station_id (Some []) pollutant lps w
     = list_measurements limit offset station_id None pollutant lps w
   \<and> list_measurements limit offset station_id country (Some []) lps w
     = list_measurements limit offset station_id country None lps w
   \<and> list_stations (Some []) pollutant w = list_stations None pollutant w
   \<and> list_stations country (Some []) w = list_stations country None w
   \<and> list_stations_wkt (Some []) pollutant w = list_stations_wkt None pollutant w
   \<and> list_stations_wkt country (Some []) w = list_stations_wkt country None w"
  by (simp add: list_measurements_def list_stations_def list_stations_wkt_def truthy_def)

section \<open>Time series\<close>

text \<open>
  C2. When no stored row has the given station and pollutant and a timestamp inside the
  look-back window, \<^verbatim>\<open>measurements_timeseries\<close> fails with the 404 error and its message;
  when there is such a row it succeeds with a non-empty list; it never succeeds with an
  empty list.
\<close>

theorem timeseries_empty_is_not_found:
  "((\<forall>m \<in> set (measurements w).
        \<not> in_window station_id pollutant (clock w - timedelta_hours hours) m)
      \<longrightarrow> fst (measurements_timeseries station_id pollutant hours w)
            = Inl (HTTPException 404 ''No measurements for given station/pollutant''))
   \<and> ((\<exists>m \<in> set (measurements w).
          in_window station_id pollutant (clock w - timedelta_hours hours) m)
      \<longrightarrow> (\<exists>tps. fst (measurements_timeseries station_id pollutant hours w) = Inr tps
                 \<and> tps \<noteq> []))
   \<and> fst (measurements_timeseries station_id pollutant hours w) \<noteq> Inr []"
  by (auto simp: fst_measurements_timeseries Let_def order_by_Nil_iff filter_empty_conv)

theorem timeseries_empty_is_not_found_witness:
  "fst (measurements_timeseries ''NL01491'' ''o3'' 24 example_world)
     = Inl (HTTPException 404 ''No measurements for given station/pollutant'')
   \<and> fst (measurements_timeseries ''NL01491'' ''pm25'' 24 example_world)
     = Inr [to_TimePoint (example_row ''NL01491'' ''pm25'' 11 (example_now - timedelta_hours 5)),
            to_TimePoint (example_row ''NL01491'' ''pm25'' 10 (example_now - timedelta_hours 1))]"
proof -
  have none: "\<forall>m \<in> set (measurements example_world).
      \<not> in_window ''NL01491'' ''o3'' (clock example_world - timedelta_hours 24) m"
    by code_simp
  have some: "\<exists>m \<in> set (measurements example_world).
      in_window ''NL01491'' ''pm25'' (clock example_world - timedelta_hours 24) m"
    by code_simp
  from timeseries_empty_is_not_found [of example_world "''NL01491''" "''o3''" 24] none
  have "fst (measurements_timeseries ''NL01491'' ''o3'' 24 example_world)
     = Inl (HTTPException 404 ''No measurements for given station/pollutant'')"
    by blast
  moreover
  from timeseries_empty_is_not_found [of example_world "''NL01491''" "''pm25''" 24] some
  obtain tps where "fst (measurements_timeseries ''NL01491'' ''pm25'' 24 example_world) = Inr tps"
    by blast
  then have "fst (measurements_timeseries ''NL01491'' ''pm25'' 24 example_world)
     = Inr [to_TimePoint (example_row ''NL01491'' ''pm25'' 11 (example_now - timedelta_hours 5)),
            to_TimePoint (example_row ''NL01491'' ''pm25'' 10 (example_now - timedelta_hours 1))]"
    by code_simp
  ultimately show ?thesis by simp
qed

text \<open>
  C3. Every point of a successful time series has the given station and pollutant and a
  timestamp not before \<open>now - hours\<close>; the points are in ascending order of timestamp;
  and they are exactly the stored rows inside the window. The witness is the example of
  the specification: of the rows one, five and thirty hours old, a window of 24 hours
  returns the five-hour row and then the one-hour row.
\<close>

theorem timeseries_window_ascending:
  assumes "fst (measurements_timeseries station_id pollutant hours w) = Inr tps"
  shows "(\<forall>tp \<in> set tps. tp_station_id tp = station_id \<and> tp_pollutant tp = pollutant
             \<and> clock w - timedelta_hours hours \<le> tp_timestamp tp)
         \<and> sorted (map tp_timestamp tps)
         \<and> mset tps = mset (map to_TimePoint
              (filter (in_window station_id pollutant (clock w - timedelta_hours hours))
                 (measurements w)))"
proof -
  define rows where "rows = order_by m_ts
     (filter (in_window station_id pollutant (clock w - timedelta_hours hours)) (measurements w))"
  from assms have tps: "tps = map to_TimePoint rows"
    by (simp add: fst_measurements_timeseries rows_def Let_def split: if_splits)
  have "\<forall>m \<in> set rows. in_window station_id pollutant (clock w - timedelta_hours hours) m"
    by (simp add: rows_def set_order_by)
  then have "\<forall>tp \<in> set tps. tp_station_id tp = station_id \<and> tp_pollutant tp = pollutant
             \<and> clock w - timedelta_hours hours \<le> tp_timestamp tp"
    by (auto simp: tps in_window_def to_TimePoint_def)
  moreover have "map tp_timestamp tps = map m_ts rows"
    by (simp add: tps to_TimePoint_def)
  then have "sorted (map tp_timestamp tps)"
    by (simp add: rows_def sorted_order_by)
  moreover have "mset tps = mset (map to_TimePoint
              (filter (in_window station_id pollutant (clock w - timedelta_hours hours))
                 (measurements w)))"
    by (simp add: tps rows_def mset_order_by)
  ultimately show ?thesis by blast
qed

theorem timeseries_window_ascending_witness:
  "fst (measurements_timeseries ''NL01491'' ''pm25'' 24 example_world)
     = Inr [to_TimePoint (example_row ''NL01491'' ''pm25'' 11 (example_now - timedelta_hours 5)),
            to_TimePoint (example_row ''NL01491'' ''pm25'' 10 (example_now - timedelta_hours 1))]
   \<and> sorted [example_now - timedelta_hours 5, example_now - timedelta_hours 1]
   \<and> example_now - timedelta_hours 24 \<le> example_now - timedelta_hours 5"
proof -
  let ?tps = "[to_TimePoint (example_row ''NL01491'' ''pm25'' 11 (example_now - timedelta_hours 5)),
            to_TimePoint (example_row ''NL01491'' ''pm25'' 10 (example_now - timedelta_hours 1))]"
  have run: "fst (measurements_timeseries ''NL01491'' ''pm25'' 24 example_world) = Inr ?tps"
    by code_simp
  from timeseries_window_ascending [OF run]
  have "sorted (map tp_timestamp ?tps)"
    and "\<forall>tp \<in> set ?tps. clock example_world - timedelta_hours 24 \<le> tp_timestamp tp"
    by blast+
  then show ?thesis
    using run by (simp add: to_TimePoint_def example_world_def example_row_def timedelta_hours_def)
qed



section \<open>Listing measurements\<close>

text \<open>
  C4, as stated, fails for a filter argument that is supplied but empty: with
  \<^verbatim>\<open>station_id=""\<close> the filter is not applied, and a row of station \<^verbatim>\<open>NL01491\<close> is
  returned although its station is not the empty string.
\<close>

theorem list_measurements_empty_filter_counterexample:
  "fst (list_measurements 100 0 (Some '''') None None False one_row_world)
     = Inr [to_Measurement (example_row ''NL01491'' ''pm25'' 10 example_now)]
   \<and> meas_station_id (to_Measurement (example_row ''NL01491'' ''pm25'' 10 example_now)) \<noteq> ''''"
  by code_simp

text \<open>
  C4, amended. Whenever \<^verbatim>\<open>list_measurements\<close> with \<^verbatim>\<open>latest_per_station=false\<close> returns,
  the returned list is in descending order of timestamp and has at most \<open>limit\<close> entries,
  and it is the page \<open>take limit (drop offset ordered)\<close> of an arrangement \<open>ordered\<close>,
  descending by timestamp, of exactly the rows that agree with every filter argument that
  is supplied and not empty. (A call does not return when the datastore refuses the
  statement, as it does for a limit or offset outside the range of \<^verbatim>\<open>bigint\<close>.)
\<close>

theorem list_measurements_page:
  assumes "fst (list_measurements limit offset station_id country pollutant False w) = Inr ms"
  shows "sorted_wrt (\<ge>) (map meas_timestamp ms)
         \<and> int (length ms) \<le> limit
         \<and> (\<exists>ordered.
               ms = map to_Measurement (take (nat limit) (drop (nat offset) ordered))
               \<and> mset ordered
                   = mset (filter (matches_filters station_id country pollutant)
                            (measurements w))
               \<and> sorted_wrt (\<ge>) (map m_ts ordered))"
proof -
  define ordered where "ordered = order_by (\<lambda>m. - m_ts m)
    (filter (matches_filters station_id country pollutant) (measurements w))"
  define page where "page = take (nat limit) (drop (nat offset) ordered)"
  from assms have range: "0 \<le> limit" and ms: "ms = map to_Measurement page"
    by (simp_all add: fst_list_measurements page_def ordered_def split: if_splits)
  have perm: "mset ordered
      = mset (filter (matches_filters station_id country pollutant) (measurements w))"
    by (simp add: ordered_def mset_order_by)
  have "sorted (map (\<lambda>m. - m_ts m) ordered)"
    unfolding ordered_def by (rule sorted_order_by)
  then have desc: "sorted_wrt (\<ge>) (map m_ts ordered)"
    by (rule sorted_desc_neg)
  then have desc_rows: "sorted_wrt (\<ge>) (map m_ts page)"
    unfolding page_def take_map [symmetric] drop_map [symmetric] by (rule sorted_wrt_take_drop)
  have eq: "map meas_timestamp ms = map m_ts page"
    by (simp add: ms to_Measurement_def)
  have desc_page: "sorted_wrt (\<ge>) (map meas_timestamp ms)"
    unfolding eq by (rule desc_rows)
  have len: "int (length ms) \<le> limit"
    using range by (simp add: ms page_def)
  from ms perm desc
  have "\<exists>ordered.
          ms = map to_Measurement (take (nat limit) (drop (nat offset) ordered))
          \<and> mset ordered
              = mset (filter (matches_filters station_id country pollutant) (measurements w))
          \<and> sorted_wrt (\<ge>) (map m_ts ordered)"
    unfolding page_def by blast
  with desc_page len show ?thesis by blast
qed

theorem list_measurements_page_witness:
  "fst (list_measurements 2 1 (Some ''NL01491'') None (Some ''pm25'') False example_world)
     = Inr [to_Measurement (example_row ''NL01491'' ''pm25'' 11 (example_now - timedelta_hours 5)),
            to_Measurement (example_row ''NL01491'' ''pm25'' 12 (example_now - timedelta_hours 30))]
   \<and> sorted_wrt (\<ge>) [example_now - timedelta_hours 5, example_now - timedelta_hours 30]"
proof -
  have run:
    "fst (list_measurements 2 1 (Some ''NL01491'') None (Some ''pm25'') False example_world)
       = Inr [to_Measurement (example_row ''NL01491'' ''pm25'' 11 (example_now - timedelta_hours 5)),
              to_Measurement (example_row ''NL01491'' ''pm25'' 12 (example_now - timedelta_hours 30))]"
    by code_simp
  from list_measurements_page [OF run]
  have "sorted_wrt (\<ge>) (map meas_timestamp
      [to_Measurement (example_row ''NL01491'' ''pm25'' 11 (example_now - timedelta_hours 5)),
       to_Measurement (example_row ''NL01491'' ''pm25'' 12 (example_now - timedelta_hours 30))])"
    by blast
  then have "sorted_wrt (\<ge>) [example_now - timedelta_hours 5, example_now - timedelta_hours 30]"
    by (simp add: to_Measurement_def example_row_def)
  with run show ?thesis by simp
qed

section \<open>Validation of query parameters\<close>

text \<open>
  C8. A request to \<^verbatim>\<open>/measurements\<close> with \<open>limit\<close> outside \<open>[1, 500]\<close> or a negative
  \<open>offset\<close>, and a request to \<^verbatim>\<open>/measurements/timeseries\<close> with \<open>hours\<close> outside
  \<open>[1, 168]\<close>, is answered with a validation error that names the field, and the world
  is returned as it was: no statement has been executed. An omitted \<open>limit\<close> is 100, an
  omitted \<open>offset\<close> is 0 and an omitted \<open>hours\<close> is 24.
\<close>

theorem query_validation:
  "(limit < 1 \<or> 500 < limit \<longrightarrow>
      (\<exists>names. get_measurements (Some limit) offset' station_id country pollutant lps w
                 = (Inl (RequestValidationError names), w) \<and> ''limit'' \<in> set names))
   \<and> (offset < 0 \<longrightarrow>
      (\<exists>names. get_measurements limit' (Some offset) station_id country pollutant lps w
                 = (Inl (RequestValidationError names), w) \<and> ''offset'' \<in> set names))
   \<and> (hours < 1 \<or> 168 < hours \<longrightarrow>
      (\<exists>names. get_measurements_timeseries station_id' pollutant' (Some hours) w
                 = (Inl (RequestValidationError names), w) \<and> ''hours'' \<in> set names))
   \<and> get_measurements None offset' station_id country pollutant lps w
       = get_measurements (Some 100) offset' station_id country pollutant lps w
   \<and> get_measurements limit' None station_id country pollutant lps w
       = get_measurements limit' (Some 0) station_id country pollutant lps w
   \<and> get_measurements_timeseries station_id' pollutant' None w
       = get_measurements_timeseries station_id' pollutant' (Some 24) w"
  by (auto simp: get_measurements_def get_measurements_timeseries_def validate_int_def
        validate_required_def limit_query_def offset_query_def hours_query_def Let_def
      split: option.splits sum.splits)


theorem query_validation_witness:
  "get_measurements (Some 0) None None None None None example_world
     = (Inl (RequestValidationError [''limit'']), example_world)
   \<and> get_measurements None (Some (- 1)) None None None None example_world
     = (Inl (RequestValidationError [''offset'']), example_world)
   \<and> get_measurements_timeseries (Some ''NL01491'') (Some ''pm25'') (Some 169) example_world
     = (Inl (RequestValidationError [''hours'']), example_world)"
proof -
  note v = query_validation [where limit = 0 and offset = "- 1" and hours = 169
      and offset' = None and limit' = None and station_id = None and country = None
      and pollutant = None and lps = None and w = example_world
      and station_id' = "Some ''NL01491''" and pollutant' = "Some ''pm25''"]
  from v obtain names where
    "get_measurements (Some 0) None None None None None example_world
       = (Inl (RequestValidationError names), example_world)"
    by auto
  then have a: "get_measurements (Some 0) None None None None None example_world
     = (Inl (RequestValidationError [''limit'']), example_world)"
    by (simp add: get_measurements_def validate_int_def limit_query_def offset_query_def)
  from v obtain names where
    "get_measurements None (Some (- 1)) None None None None example_world
       = (Inl (RequestValidationError names), example_world)"
    by auto
  then have b: "get_measurements None (Some (- 1)) None None None None example_world
     = (Inl (RequestValidationError [''offset'']), example_world)"
    by (simp add: get_measurements_def validate_int_def limit_query_def offset_query_def)
  from v obtain names where
    "get_measurements_timeseries (Some ''NL01491'') (Some ''pm25'') (Some 169) example_world
       = (Inl (RequestValidationError names), example_world)"
    by auto
  then have c:
    "get_measurements_timeseries (Some ''NL01491'') (Some ''pm25'') (Some 169) example_world
       = (Inl (RequestValidationError [''hours'']), example_world)"
    by (simp add: get_measurements_timeseries_def validate_int_def validate_required_def
          hours_query_def)
  from a b c show ?thesis by simp
qed


section \<open>Stations as GeoJSON\<close>





section \<open>Stations as WKT\<close>

text \<open>
  C5. When \<^verbatim>\<open>station_id\<close> is the primary key of \<^verbatim>\<open>stations\<close>, \<^verbatim>\<open>list_stations_wkt\<close>
  succeeds, and in every returned object the \<^verbatim>\<open>measurements\<close> array has exactly one
  entry for each pollutant that the station has stored (selected) measurements of: the
  pollutants of the entries are distinct, they are the pollutants of the station, so the
  length of the array is their number, and every entry is a stored measurement of the
  station with the greatest timestamp among those of its pollutant. In the witness the
  station has readings of two pollutants and the array has two entries.
\<close>

theorem list_stations_wkt_latest_per_pollutant:
  assumes "stations_primary_key w"
  shows "\<exists>objs. fst (list_stations_wkt country pollutant w) = Inr objs
     \<and> (\<forall>obj \<in> set objs.
          distinct (map j_pollutant (w_measurements obj))
        \<and> set (map j_pollutant (w_measurements obj))
            = m_pollutant ` {m \<in> set (measurements w).
                m_station_id m = w_station_id obj \<and> pollutant_selected pollutant m}
        \<and> length (w_measurements obj)
            = card (m_pollutant ` {m \<in> set (measurements w).
                m_station_id m = w_station_id obj \<and> pollutant_selected pollutant m})
        \<and> (\<forall>e \<in> set (w_measurements obj). \<exists>m \<in> set (measurements w).
              m_station_id m = w_station_id obj \<and> pollutant_selected pollutant m
            \<and> e = json_build_object m
            \<and> (\<forall>m' \<in> set (measurements w).
                  m_station_id m' = w_station_id obj \<and> m_pollutant m' = j_pollutant e
                  \<longrightarrow> m_ts m' \<le> j_timestamp e)))"
proof -
  let ?objs = "List.map_filter wkt_object
      (group_by_station
         (filter (\<lambda>row. station_selected country (fst row))
            (join_on_station_id (stations w) (latest_per_pollutant pollutant w))))"
  have run: "fst (list_stations_wkt country pollutant w) = Inr ?objs"
    by (rule fst_list_stations_wkt)
  have each:
    "distinct (map j_pollutant (w_measurements obj))
        \<and> set (map j_pollutant (w_measurements obj))
            = m_pollutant ` {m \<in> set (measurements w).
                m_station_id m = w_station_id obj \<and> pollutant_selected pollutant m}
        \<and> length (w_measurements obj)
            = card (m_pollutant ` {m \<in> set (measurements w).
                m_station_id m = w_station_id obj \<and> pollutant_selected pollutant m})
        \<and> (\<forall>e \<in> set (w_measurements obj). \<exists>m \<in> set (measurements w).
              m_station_id m = w_station_id obj \<and> pollutant_selected pollutant m
            \<and> e = json_build_object m
            \<and> (\<forall>m' \<in> set (measurements w).
                  m_station_id m' = w_station_id obj \<and> m_pollutant m' = j_pollutant e
                  \<longrightarrow> m_ts m' \<le> j_timestamp e))"
    if "obj \<in> set ?objs" for obj
  proof -
    from list_stations_wkt_object [OF assms [unfolded stations_primary_key_def] that]
    obtain s :: station_row where
      id: "w_station_id obj = s_station_id s"
      and ms: "w_measurements obj = map json_build_object
                   (filter (\<lambda>lm. m_station_id lm = s_station_id s)
                      (latest_per_pollutant pollutant w))"
      by blast
    define own where "own = filter (\<lambda>lm. m_station_id lm = w_station_id obj)
                      (latest_per_pollutant pollutant w)"
    have ms': "w_measurements obj = map json_build_object own"
      by (simp add: ms own_def id)
    have pol: "map j_pollutant (w_measurements obj) = map m_pollutant own"
      by (simp add: ms' json_build_object_def)
    have d: "distinct (map j_pollutant (w_measurements obj))"
      unfolding pol own_def by (rule latest_of_station_distinct)
    have st: "set (map j_pollutant (w_measurements obj))
            = m_pollutant ` {m \<in> set (measurements w).
                m_station_id m = w_station_id obj \<and> pollutant_selected pollutant m}"
      unfolding pol own_def set_map by (rule latest_of_station_pollutants)
    have "length (w_measurements obj) = length (map j_pollutant (w_measurements obj))"
      by simp
    also have "\<dots> = card (set (map j_pollutant (w_measurements obj)))"
      using d by (simp only: distinct_card)
    finally have len: "length (w_measurements obj)
            = card (m_pollutant ` {m \<in> set (measurements w).
                m_station_id m = w_station_id obj \<and> pollutant_selected pollutant m})"
      by (simp only: st)
    have entry: "\<exists>m \<in> set (measurements w).
              m_station_id m = w_station_id obj \<and> pollutant_selected pollutant m
            \<and> e = json_build_object m
            \<and> (\<forall>m' \<in> set (measurements w).
                  m_station_id m' = w_station_id obj \<and> m_pollutant m' = j_pollutant e
                  \<longrightarrow> m_ts m' \<le> j_timestamp e)"
      if "e \<in> set (w_measurements obj)" for e
    proof -
      from that obtain m where m: "m \<in> set (latest_per_pollutant pollutant w)"
        and sid: "m_station_id m = w_station_id obj" and e: "e = json_build_object m"
        by (auto simp: ms' own_def)
      from m have tbl: "m \<in> set (measurements w)" "pollutant_selected pollutant m"
        by (simp_all add: latest_per_pollutant_subset)
      have "m_ts m' \<le> m_ts m"
        if "m' \<in> set (measurements w)" "m_station_id m' = w_station_id obj"
           "m_pollutant m' = m_pollutant m" for m'
        using m that(1) by (rule latest_per_pollutant_latest) (simp_all add: that sid)
      with tbl sid e show ?thesis
        by (intro bexI [of _ m]) (simp_all add: json_build_object_def)
    qed
    from d st len entry show ?thesis by blast
  qed
  from run each show ?thesis by blast
qed

theorem list_stations_wkt_latest_per_pollutant_witness:
  "stations_primary_key stations_world
   \<and> fst (list_stations_wkt None None stations_world)
       = Inr [\<lparr>wkt = POINT 5 52, w_station_id = ''NL01491'', w_source = Some ''eea'',
               w_country = Some ''NL'', w_city = Some ''Amsterdam'', w_location_name = None,
               w_measurements =
                 [\<lparr>j_pollutant = ''no2'', j_value = Some 20, j_unit = Some ''ug/m3'',
                   j_timestamp = example_now - timedelta_hours 2\<rparr>,
                  \<lparr>j_pollutant = ''pm25'', j_value = Some 10, j_unit = Some ''ug/m3'',
                   j_timestamp = example_now - timedelta_hours 1\<rparr>]\<rparr>]"
proof -
  have pk: "stations_primary_key stations_world"
    by code_simp
  from list_stations_wkt_latest_per_pollutant [OF pk, of None None]
  obtain objs where "fst (list_stations_wkt None None stations_world) = Inr objs"
    by blast
  then have "fst (list_stations_wkt None None stations_world)
       = Inr [\<lparr>wkt = POINT 5 52, w_station_id = ''NL01491'', w_source = Some ''eea'',
               w_country = Some ''NL'', w_city = Some ''Amsterdam'', w_location_name = None,
               w_measurements =
                 [\<lparr>j_pollutant = ''no2'', j_value = Some 20, j_unit = Some ''ug/m3'',
                   j_timestamp = example_now - timedelta_hours 2\<rparr>,
                  \<lparr>j_pollutant = ''pm25'', j_value = Some 10, j_unit = Some ''ug/m3'',
                   j_timestamp = example_now - timedelta_hours 1\<rparr>]\<rparr>]"
    by code_simp
  with pk show ?thesis by simp
qed

section \<open>Stations without coordinates\<close>

text \<open>
  C7. Both geospatial handlers succeed. No feature of \<^verbatim>\<open>list_stations\<close> has a null among
  its coordinates; every feature and every object of \<^verbatim>\<open>list_stations_wkt\<close> is built from a
  station row whose latitude and longitude are both present; and when \<^verbatim>\<open>station_id\<close> is
  the primary key, a station with a null latitude or longitude occurs in neither output.
\<close>

theorem geospatial_outputs_exclude_null_coordinates:
  "\<exists>fc objs.
     fst (list_stations country pollutant w) = Inr fc
     \<and> fst (list_stations_wkt country pollutant w) = Inr objs
     \<and> (\<forall>f \<in> set (features fc).
          None \<notin> set (coordinates f)
          \<and> (\<exists>s \<in> set (stations w). s_lat s \<noteq> None \<and> s_lon s \<noteq> None
                \<and> p_station_id f = s_station_id s \<and> coordinates f = [s_lon s, s_lat s]))
     \<and> (\<forall>obj \<in> set objs.
          \<exists>s \<in> set (stations w). \<exists>lon lat. s_lon s = Some lon \<and> s_lat s = Some lat
                \<and> w_station_id obj = s_station_id s \<and> wkt obj = POINT lon lat)
     \<and> (stations_primary_key w \<longrightarrow>
          (\<forall>s \<in> set (stations w). s_lat s = None \<or> s_lon s = None \<longrightarrow>
             s_station_id s \<notin> p_station_id ` set (features fc)
             \<and> s_station_id s \<notin> w_station_id ` set objs))"
proof -
  define rows where "rows = filter (\<lambda>row. station_selected country (fst row))
     (join_on_station_id (stations w) (latest_per_station pollutant w))"
  define groups where "groups = group_by_station
     (filter (\<lambda>row. station_selected country (fst row))
        (join_on_station_id (stations w) (latest_per_pollutant pollutant w)))"
  let ?fc = "\<lparr>features = map to_Feature rows\<rparr>"
  let ?objs = "List.map_filter wkt_object groups"
  have run1: "fst (list_stations country pollutant w) = Inr ?fc"
    by (simp add: fst_list_stations rows_def)
  have run2: "fst (list_stations_wkt country pollutant w) = Inr ?objs"
    by (simp add: fst_list_stations_wkt groups_def)
  have feat: "None \<notin> set (coordinates f)
          \<and> (\<exists>s \<in> set (stations w). s_lat s \<noteq> None \<and> s_lon s \<noteq> None
                \<and> p_station_id f = s_station_id s \<and> coordinates f = [s_lon s, s_lat s])"
    if "f \<in> set (features ?fc)" for f
  proof -
    from that obtain row where row: "row \<in> set rows" and f: "f = to_Feature row"
      by auto
    from row have s: "fst row \<in> set (stations w)"
      and nn: "s_lat (fst row) \<noteq> None" "s_lon (fst row) \<noteq> None"
      unfolding rows_def by (simp_all add: selected_join_row)
    from nn have "None \<notin> set (coordinates f)"
      by (auto simp: f to_Feature_sel)
    moreover from s nn
    have "\<exists>s \<in> set (stations w). s_lat s \<noteq> None \<and> s_lon s \<noteq> None
                \<and> p_station_id f = s_station_id s \<and> coordinates f = [s_lon s, s_lat s]"
      by (intro bexI [of _ "fst row"]) (simp_all add: f to_Feature_sel)
    ultimately show ?thesis by blast
  qed
  have obj: "\<exists>s \<in> set (stations w). \<exists>lon lat. s_lon s = Some lon \<and> s_lat s = Some lat
                \<and> w_station_id obj = s_station_id s \<and> wkt obj = POINT lon lat"
    if "obj \<in> set ?objs" for obj
  proof -
    from that obtain row where row: "row \<in> set groups" and some: "wkt_object row = Some obj"
      unfolding set_map_filter_iff by blast
    from row have "fst row \<in> fst ` set (filter (\<lambda>row. station_selected country (fst row))
        (join_on_station_id (stations w) (latest_per_pollutant pollutant w)))"
      unfolding groups_def by (rule group_by_station_row [THEN conjunct1])
    then obtain r where "r \<in> set (filter (\<lambda>row. station_selected country (fst row))
        (join_on_station_id (stations w) (latest_per_pollutant pollutant w)))"
      and "fst r = fst row"
      by auto
    then have s: "fst row \<in> set (stations w)"
      using selected_join_row [of r country "stations w" "latest_per_pollutant pollutant w"]
      by simp
    from some have "wkt_object (fst row, snd row) = Some obj"
      by simp
    from wkt_object_Some [OF this] s show ?thesis
      by (intro bexI [of _ "fst row"]) auto
  qed
  have excl: "s_station_id s \<notin> p_station_id ` set (features ?fc)
             \<and> s_station_id s \<notin> w_station_id ` set ?objs"
    if pk: "stations_primary_key w"
      and s: "s \<in> set (stations w)" and null: "s_lat s = None \<or> s_lon s = None"
    for s
  proof -
    from pk [unfolded stations_primary_key_def] have inj: "inj_on s_station_id (set (stations w))"
      by (simp add: distinct_map)
    have "s_station_id s \<noteq> p_station_id f" if "f \<in> set (features ?fc)" for f
    proof
      assume eq: "s_station_id s = p_station_id f"
      from feat [OF that] obtain s' :: station_row where "s' \<in> set (stations w)"
        and nn: "s_lat s' \<noteq> None" "s_lon s' \<noteq> None" and "p_station_id f = s_station_id s'"
        by blast
      with eq inj s have "s' = s"
        by (simp add: inj_on_def)
      with nn null show False by auto
    qed
    moreover have "s_station_id s \<noteq> w_station_id obj" if "obj \<in> set ?objs" for obj
    proof
      assume eq: "s_station_id s = w_station_id obj"
      from obj [OF that] obtain s' :: station_row where "s' \<in> set (stations w)"
        and nn: "s_lat s' \<noteq> None" "s_lon s' \<noteq> None" and "w_station_id obj = s_station_id s'"
        by auto
      with eq inj s have "s' = s"
        by (simp add: inj_on_def)
      with nn null show False by auto
    qed
    ultimately show ?thesis by blast
  qed
  from run1 run2 feat obj excl show ?thesis
    by (intro exI [of _ ?fc] exI [of _ ?objs]) blast
qed

theorem geospatial_outputs_exclude_null_coordinates_witness:
  "stations_primary_key stations_world
   \<and> s_lat (station_example ''XX0001'' None (Some 4)) = None
   \<and> map p_station_id
        (case fst (list_stations (Some ''NL'') None stations_world) of
           Inl e \<Rightarrow> [] | Inr fc \<Rightarrow> features fc) = [''NL01491'']
   \<and> map coordinates
        (case fst (list_stations (Some ''NL'') None stations_world) of
           Inl e \<Rightarrow> [] | Inr fc \<Rightarrow> features fc) = [[Some 5, Some 52]]
   \<and> map w_station_id
        (case fst (list_stations_wkt (Some ''NL'') None stations_world) of
           Inl e \<Rightarrow> [] | Inr objs \<Rightarrow> objs) = [''NL01491'']
   \<and> map wkt
        (case fst (list_stations_wkt (Some ''NL'') None stations_world) of
           Inl e \<Rightarrow> [] | Inr objs \<Rightarrow> objs) = [POINT 5 52]"
proof -
  have pk: "stations_primary_key stations_world"
    by code_simp
  from geospatial_outputs_exclude_null_coordinates [of "Some ''NL''" None stations_world]
  obtain fc objs where "fst (list_stations (Some ''NL'') None stations_world) = Inr fc"
    and "fst (list_stations_wkt (Some ''NL'') None stations_world) = Inr objs"
    by blast
  then have "map p_station_id
        (case fst (list_stations (Some ''NL'') None stations_world) of
           Inl e \<Rightarrow> [] | Inr fc \<Rightarrow> features fc) = [''NL01491'']
   \<and> map coordinates
        (case fst (list_stations (Some ''NL'') None stations_world) of
           Inl e \<Rightarrow> [] | Inr fc \<Rightarrow> features fc) = [[Some 5, Some 52]]
   \<and> map w_station_id
        (case fst (list_stations_wkt (Some ''NL'') None stations_world) of
           Inl e \<Rightarrow> [] | Inr objs \<Rightarrow> objs) = [''NL01491'']
   \<and> map wkt
        (case fst (list_stations_wkt (Some ''NL'') None stations_world) of
           Inl e \<Rightarrow> [] | Inr objs \<Rightarrow> objs) = [POINT 5 52]"
    by code_simp
  moreover have "s_lat (station_example ''XX0001'' None (Some 4)) = None"
    by (simp add: station_example_def)
  ultimately show ?thesis using pk by simp
qed


section \<open>Repeated requests\<close>

text \<open>
  C9, as stated, fails where selected rows share a timestamp. Two datastores hold the same
  two rows of station \<^verbatim>\<open>NL01491\<close>, one of \<^verbatim>\<open>pm25\<close> and one of \<^verbatim>\<open>no2\<close> with the same
  timestamp, in the two possible scan orders; stations and clock are the same. The page of
  \<^verbatim>\<open>list_measurements\<close> with limit 1 holds the \<^verbatim>\<open>pm25\<close> row in one and the \<^verbatim>\<open>no2\<close> row in
  the other, and the feature of \<^verbatim>\<open>list_stations\<close> carries \<^verbatim>\<open>pm25\<close> in one and \<^verbatim>\<open>no2\<close> in
  the other: the responses differ in their content, not in the order of tied rows.
\<close>

theorem responses_differ_at_ties_counterexample:
  "mset (measurements tie_world) = mset (measurements tie_world_rescanned)
   \<and> stations tie_world = stations tie_world_rescanned
   \<and> clock tie_world = clock tie_world_rescanned
   \<and> fst (list_measurements 1 0 None None None False tie_world)
       = Inr [to_Measurement (example_row ''NL01491'' ''pm25'' 10 (example_now - timedelta_hours 1))]
   \<and> fst (list_measurements 1 0 None None None False tie_world_rescanned)
       = Inr [to_Measurement (example_row ''NL01491'' ''no2'' 20 (example_now - timedelta_hours 1))]
   \<and> map p_pollutant
        (case fst (list_stations None None tie_world) of
           Inl e \<Rightarrow> [] | Inr fc \<Rightarrow> features fc) = [''pm25'']
   \<and> map p_pollutant
        (case fst (list_stations None None tie_world_rescanned) of
           Inl e \<Rightarrow> [] | Inr fc \<Rightarrow> features fc) = [''no2'']"
proof -
  have "mset (measurements tie_world) = mset (measurements tie_world_rescanned)"
    by (simp add: tie_world_def tie_world_rescanned_def)
  moreover have "stations tie_world = stations tie_world_rescanned"
    and "clock tie_world = clock tie_world_rescanned"
    by (simp_all add: tie_world_def tie_world_rescanned_def)
  moreover have "fst (list_measurements 1 0 None None None False tie_world)
       = Inr [to_Measurement (example_row ''NL01491'' ''pm25'' 10 (example_now - timedelta_hours 1))]"
    by code_simp
  moreover have "fst (list_measurements 1 0 None None None False tie_world_rescanned)
       = Inr [to_Measurement (example_row ''NL01491'' ''no2'' 20 (example_now - timedelta_hours 1))]"
    by code_simp
  moreover have "map p_pollutant
        (case fst (list_stations None None tie_world) of
           Inl e \<Rightarrow> [] | Inr fc \<Rightarrow> features fc) = [''pm25'']"
    by code_simp
  moreover have "map p_pollutant
        (case fst (list_stations None None tie_world_rescanned) of
           Inl e \<Rightarrow> [] | Inr fc \<Rightarrow> features fc) = [''no2'']"
    by code_simp
  ultimately show ?thesis by blast
qed

text \<open>
  C9, amended. Let two worlds hold the same rows in both tables, in any scan order.
  \<^item> The time series of the two (at the same clock) are both the 404 error or are
    permutations of each other with the same sequence of timestamps; they are equal when
    no two rows in the window share a timestamp.
  \<^item> The pages of \<^verbatim>\<open>list_measurements\<close> have the same sequence of timestamps, and are equal
    when no two selected rows share a timestamp.
  \<^item> When no two selected rows of one station share a timestamp, \<^verbatim>\<open>list_stations\<close>
    returns the same features, in the same order when the stations are scanned in the
    same order.
  \<^item> When no two selected rows of one station and pollutant share a timestamp,
    \<^verbatim>\<open>list_stations_wkt\<close> returns the same objects (\<^verbatim>\<open>station_id\<close> being the primary key), in
    the same order when the stations are scanned in the same order.
  \<^item> Two worlds with the same tables in the same scan order (and the same clock, for the
    time series) give the same response, whatever has been executed before, and a handler
    leaves the tables and the clock as they were: the response is a function of the
    parameters, the tables as scanned and, for the time series, the clock.
\<close>

theorem responses_determined_by_rows:
  "(same_rows w1 w2 \<longrightarrow>
      rel_sum (=) (\<lambda>ms1 ms2. map meas_timestamp ms1 = map meas_timestamp ms2)
        (fst (list_measurements limit offset station_id country pollutant lps w1))
        (fst (list_measurements limit offset station_id country pollutant lps w2))
      \<and> (distinct (map m_ts (filter (matches_filters station_id country pollutant)
                                (measurements w1))) \<longrightarrow>
           fst (list_measurements limit offset station_id country pollutant lps w1)
             = fst (list_measurements limit offset station_id country pollutant lps w2))
      \<and> (clock w1 = clock w2 \<longrightarrow>
           rel_sum (=) (\<lambda>tps1 tps2. mset tps1 = mset tps2
                          \<and> map tp_timestamp tps1 = map tp_timestamp tps2)
             (fst (measurements_timeseries station_id' pollutant' hours w1))
             (fst (measurements_timeseries station_id' pollutant' hours w2))
           \<and> (distinct (map m_ts (filter (in_window station_id' pollutant'
                                            (clock w1 - timedelta_hours hours))
                                     (measurements w1))) \<longrightarrow>
                fst (measurements_timeseries station_id' pollutant' hours w1)
                  = fst (measurements_timeseries station_id' pollutant' hours w2)))
      \<and> (distinct (map (\<lambda>m. (m_station_id m, m_ts m))
                      (filter (pollutant_selected pollutant) (measurements w1))) \<longrightarrow>
           rel_sum (=) (\<lambda>fc1 fc2. mset (features fc1) = mset (features fc2))
             (fst (list_stations country pollutant w1))
             (fst (list_stations country pollutant w2))
           \<and> (stations w1 = stations w2 \<longrightarrow>
                fst (list_stations country pollutant w1)
                  = fst (list_stations country pollutant w2)))
      \<and> (distinct (map (\<lambda>m. (m_station_id m, m_pollutant m, m_ts m))
                      (filter (pollutant_selected pollutant) (measurements w1))) \<longrightarrow>
           (stations w1 = stations w2 \<longrightarrow>
              fst (list_stations_wkt country pollutant w1)
                = fst (list_stations_wkt country pollutant w2))
           \<and> (stations_primary_key w1 \<longrightarrow>
                rel_sum (=) (\<lambda>objs1 objs2. mset objs1 = mset objs2)
                  (fst (list_stations_wkt country pollutant w1))
                  (fst (list_stations_wkt country pollutant w2)))))
   \<and> (same_tables w1 w2 \<longrightarrow>
      fst (list_measurements limit offset station_id country pollutant lps w1)
        = fst (list_measurements limit offset station_id country pollutant lps w2)
      \<and> fst (list_stations country pollutant w1) = fst (list_stations country pollutant w2)
      \<and> fst (list_stations_wkt country pollutant w1)
        = fst (list_stations_wkt country pollutant w2)
      \<and> (clock w1 = clock w2 \<longrightarrow>
           fst (measurements_timeseries station_id' pollutant' hours w1)
             = fst (measurements_timeseries station_id' pollutant' hours w2)))
   \<and> same_tables w1 (snd (list_measurements limit offset station_id country pollutant lps w1))
   \<and> clock (snd (list_measurements limit offset station_id country pollutant lps w1)) = clock w1
   \<and> same_tables w1 (snd (measurements_timeseries station_id' pollutant' hours w1))
   \<and> clock (snd (measurements_timeseries station_id' pollutant' hours w1)) = clock w1
   \<and> same_tables w1 (snd (list_stations country pollutant w1))
   \<and> clock (snd (list_stations country pollutant w1)) = clock w1
   \<and> same_tables w1 (snd (list_stations_wkt country pollutant w1))
   \<and> clock (snd (list_stations_wkt country pollutant w1)) = clock w1"
proof (intro conjI impI)
  assume "same_rows w1 w2"
  then have "mset (measurements w1) = mset (measurements w2)"
    by (simp add: same_rows_def)
  then show "rel_sum (=) (\<lambda>ms1 ms2. map meas_timestamp ms1 = map meas_timestamp ms2)
        (fst (list_measurements limit offset station_id country pollutant lps w1))
        (fst (list_measurements limit offset station_id country pollutant lps w2))"
    by (rule list_measurements_same_rows)
next
  assume "same_rows w1 w2"
    and free: "distinct (map m_ts (filter (matches_filters station_id country pollutant)
                                (measurements w1)))"
  then have "mset (measurements w1) = mset (measurements w2)"
    by (simp add: same_rows_def)
  then show "fst (list_measurements limit offset station_id country pollutant lps w1)
             = fst (list_measurements limit offset station_id country pollutant lps w2)"
    using free by (rule list_measurements_same_rows)
next
  assume "same_rows w1 w2" and clk: "clock w1 = clock w2"
  then have "mset (measurements w1) = mset (measurements w2)"
    by (simp add: same_rows_def)
  then show "rel_sum (=) (\<lambda>tps1 tps2. mset tps1 = mset tps2
                          \<and> map tp_timestamp tps1 = map tp_timestamp tps2)
             (fst (measurements_timeseries station_id' pollutant' hours w1))
             (fst (measurements_timeseries station_id' pollutant' hours w2))"
    using clk by (rule measurements_timeseries_same_rows)
next
  assume "same_rows w1 w2" and clk: "clock w1 = clock w2"
    and free: "distinct (map m_ts (filter (in_window station_id' pollutant'
                                            (clock w1 - timedelta_hours hours))
                                     (measurements w1)))"
  then have "mset (measurements w1) = mset (measurements w2)"
    by (simp add: same_rows_def)
  then show "fst (measurements_timeseries station_id' pollutant' hours w1)
                  = fst (measurements_timeseries station_id' pollutant' hours w2)"
    using clk free by (rule measurements_timeseries_same_rows)
next
  assume "same_rows w1 w2"
    and "distinct (map (\<lambda>m. (m_station_id m, m_ts m))
                      (filter (pollutant_selected pollutant) (measurements w1)))"
  then show "rel_sum (=) (\<lambda>fc1 fc2. mset (features fc1) = mset (features fc2))
             (fst (list_stations country pollutant w1))
             (fst (list_stations country pollutant w2))"
    by (rule list_stations_same_rows)
next
  assume "same_rows w1 w2"
    and "distinct (map (\<lambda>m. (m_station_id m, m_ts m))
                      (filter (pollutant_selected pollutant) (measurements w1)))"
    and "stations w1 = stations w2"
  then show "fst (list_stations country pollutant w1)
                  = fst (list_stations country pollutant w2)"
    by (rule list_stations_same_rows)
next
  assume "same_rows w1 w2"
    and "distinct (map (\<lambda>m. (m_station_id m, m_pollutant m, m_ts m))
                      (filter (pollutant_selected pollutant) (measurements w1)))"
    and "stations w1 = stations w2"
  then show "fst (list_stations_wkt country pollutant w1)
                = fst (list_stations_wkt country pollutant w2)"
    by (rule list_stations_wkt_same_rows)
next
  assume "same_rows w1 w2"
    and "distinct (map (\<lambda>m. (m_station_id m, m_pollutant m, m_ts m))
                      (filter (pollutant_selected pollutant) (measurements w1)))"
    and "stations_primary_key w1"
  then show "rel_sum (=) (\<lambda>objs1 objs2. mset objs1 = mset objs2)
                  (fst (list_stations_wkt country pollutant w1))
                  (fst (list_stations_wkt country pollutant w2))"
    by (rule list_stations_wkt_same_rows)
next
  assume "same_tables w1 w2"
  then show "fst (list_measurements limit offset station_id country pollutant lps w1)
        = fst (list_measurements limit offset station_id country pollutant lps w2)"
    and "fst (list_stations country pollutant w1) = fst (list_stations country pollutant w2)"
    and "fst (list_stations_wkt country pollutant w1)
        = fst (list_stations_wkt country pollutant w2)"
    by (rule same_tables_responses)+
next
  assume "same_tables w1 w2" and "clock w1 = clock w2"
  then show "fst (measurements_timeseries station_id' pollutant' hours w1)
             = fst (measurements_timeseries station_id' pollutant' hours w2)"
    by (rule same_tables_responses)
qed (simp_all add: same_tables_def snd_list_measurements snd_measurements_timeseries
       snd_list_stations snd_list_stations_wkt)

theorem responses_determined_by_rows_witness:
  "same_rows example_world example_world_rescanned
   \<and> same_rows stations_world stations_world_rescanned
   \<and> stations_primary_key stations_world
   \<and> fst (list_measurements 2 0 None None None False example_world_rescanned)
     = fst (list_measurements 2 0 None None None False example_world)
   \<and> fst (measurements_timeseries ''NL01491'' ''pm25'' 24 example_world_rescanned)
     = fst (measurements_timeseries ''NL01491'' ''pm25'' 24 example_world)
   \<and> fst (list_stations None None stations_world_rescanned)
     = fst (list_stations None None stations_world)
   \<and> fst (list_stations_wkt None None stations_world_rescanned)
     = fst (list_stations_wkt None None stations_world)
   \<and> fst (list_measurements 2 0 None None None False
          (snd (list_measurements 2 0 None None None False example_world)))
     = fst (list_measurements 2 0 None None None False example_world)"
proof -
  let ?after = "snd (list_measurements 2 0 None None None False example_world)"
  note again = responses_determined_by_rows
    [where ?w1.0 = example_world and ?w2.0 = ?after and limit = 2 and offset = 0
       and station_id = None and country = None and pollutant = None and lps = False
       and station_id' = "''NL01491''" and pollutant' = "''pm25''" and hours = 24]
  note rescan = responses_determined_by_rows
    [where ?w1.0 = example_world and ?w2.0 = example_world_rescanned and limit = 2
       and offset = 0 and station_id = None and country = None and pollutant = None
       and lps = False and station_id' = "''NL01491''" and pollutant' = "''pm25''"
       and hours = 24]
  note geo = responses_determined_by_rows
    [where ?w1.0 = stations_world and ?w2.0 = stations_world_rescanned
       and country = None and pollutant = None]
  from again have same: "same_tables example_world ?after"
    by blast
  with again
  have a: "fst (list_measurements 2 0 None None None False ?after)
     = fst (list_measurements 2 0 None None None False example_world)"
    by simp
  have rows1: "same_rows example_world example_world_rescanned"
    by (simp add: same_rows_def example_world_rescanned_def example_world_def)
  have clk: "clock example_world = clock example_world_rescanned"
    by (simp add: example_world_rescanned_def example_world_def)
  have free1: "distinct (map m_ts (filter (matches_filters None None None)
                                (measurements example_world)))"
    by code_simp
  have free2: "distinct (map m_ts (filter (in_window ''NL01491'' ''pm25''
                                            (clock example_world - timedelta_hours 24))
                                     (measurements example_world)))"
    by code_simp
  from rescan rows1 clk free1 free2
  have c: "fst (list_measurements 2 0 None None None False example_world)
     = fst (list_measurements 2 0 None None None False example_world_rescanned)"
    and d: "fst (measurements_timeseries ''NL01491'' ''pm25'' 24 example_world)
     = fst (measurements_timeseries ''NL01491'' ''pm25'' 24 example_world_rescanned)"
    by blast+
  have rows2: "same_rows stations_world stations_world_rescanned"
    by (simp add: same_rows_def stations_world_rescanned_def)
  have pk: "stations_primary_key stations_world"
    by code_simp
  have free3: "distinct (map (\<lambda>m. (m_station_id m, m_ts m))
                      (filter (pollutant_selected None) (measurements stations_world)))"
    by code_simp
  have free4: "distinct (map (\<lambda>m. (m_station_id m, m_pollutant m, m_ts m))
                      (filter (pollutant_selected None) (measurements stations_world)))"
    by code_simp
  from geo rows2 free3
  have "rel_sum (=) (\<lambda>fc1 fc2. mset (features fc1) = mset (features fc2))
             (fst (list_stations None None stations_world))
             (fst (list_stations None None stations_world_rescanned))"
    by blast
  then have e: "fst (list_stations None None stations_world_rescanned)
     = fst (list_stations None None stations_world)"
    by code_simp
  from geo rows2 free4 pk
  have "rel_sum (=) (\<lambda>objs1 objs2. mset objs1 = mset objs2)
                  (fst (list_stations_wkt None None stations_world))
                  (fst (list_stations_wkt None None stations_world_rescanned))"
    by blast
  then have f: "fst (list_stations_wkt None None stations_world_rescanned)
     = fst (list_stations_wkt None None stations_world)"
    by code_simp
  from a rows1 rows2 pk c d e f show ?thesis by simp
qed

end
